theory Spec2Isabelle
  imports Complex_Main "HOL-Library.Sublist" "HOL-Library.Log_Nat"
begin

section \<open>Text\<close>

text \<open>
  A Python \<open>str\<close> is a sequence of Unicode code points; it is modelled as a list of
  natural numbers.  \<open>ascii\<close> embeds an ASCII literal.
\<close>

type_synonym ustr = "nat list"

definition ascii :: "string \<Rightarrow> ustr" where
  "ascii s = map of_char s"

text \<open>
  \<open>str.isspace\<close> for one code point; \<open>str.strip()\<close> and the regular expression
  class \<open>\s\<close> use the same set.
\<close>

definition is_space :: "nat \<Rightarrow> bool" where
  "is_space c \<longleftrightarrow>
     (9 \<le> c \<and> c \<le> 13) \<or> (28 \<le> c \<and> c \<le> 32) \<or> c = 133 \<or> c = 160 \<or> c = 5760 \<or>
     (8192 \<le> c \<and> c \<le> 8202) \<or> c = 8232 \<or> c = 8233 \<or> c = 8239 \<or> c = 8287 \<or> c = 12288"

definition strip :: "ustr \<Rightarrow> ustr" where
  "strip s = rev (dropWhile is_space (rev (dropWhile is_space s)))"

text \<open>
  \<open>str.lower()\<close> is a library function over all of Unicode; the functions that call
  it take it as the parameter \<open>low\<close>.  \<open>ascii_lower\<close> maps the letters A to Z to a
  to z and leaves every other character as it is: this is the case folding that
  \<open>float\<close> applies to its special words, and it is what \<open>str.lower()\<close> does on a text
  whose only cased letters are ASCII letters, as in all sample texts below.
\<close>

definition lower_cp :: "nat \<Rightarrow> nat" where
  "lower_cp c = (if 65 \<le> c \<and> c \<le> 90 then c + 32 else c)"

definition ascii_lower :: "ustr \<Rightarrow> ustr" where
  "ascii_lower s = map lower_cp s"

text \<open>\<open>sub in s\<close> on strings: \<open>sub\<close> occurs in \<open>s\<close> as a contiguous block.\<close>

fun py_in :: "ustr \<Rightarrow> ustr \<Rightarrow> bool" where
  "py_in sub [] = (sub = [])"
| "py_in sub (c # cs) = (prefix sub (c # cs) \<or> py_in sub cs)"

section \<open>Floating-point values\<close>

text \<open>
  A Python \<open>float\<close> is an IEEE 754 double.  A finite double is given by its exact
  value, a rational number; the negative zero, the two infinities and NaN are values of
  their own.  \<open>to_double\<close> rounds a rational to the nearest double, ties to even, as
  the parser and the arithmetic of the hardware do.
\<close>

datatype pyfloat = Fin rat | NegZero | PInf | NInf | FNaN

definition pow2 :: "int \<Rightarrow> rat" where
  "pow2 e = (if 0 \<le> e then 2 ^ nat e else 1 / 2 ^ nat (- e))"

definition ilog2 :: "rat \<Rightarrow> int" where
  "ilog2 a =
     (let (p, q) = quotient_of a;
          d = int (floorlog 2 (nat p)) - int (floorlog 2 (nat q))
      in if pow2 d \<le> a then d else d - 1)"

definition round_half_even :: "rat \<Rightarrow> int" where
  "round_half_even x =
     (let f = \<lfloor>x\<rfloor>; r = x - of_int f
      in if r < 1 / 2 then f else if 1 / 2 < r then f + 1 else if even f then f else f + 1)"

definition to_double :: "rat \<Rightarrow> pyfloat" where
  "to_double q =
     (if q = 0 then Fin 0
      else let a = \<bar>q\<bar>;
               e = max (ilog2 a - 52) (- 1074);
               v = of_int (round_half_even (a / pow2 e)) * pow2 e
           in if pow2 1024 \<le> v then (if 0 < q then PInf else NInf)
              else if v = 0 then (if 0 < q then Fin 0 else NegZero)
              else Fin (if 0 < q then v else - v))"

fun fneg :: "pyfloat \<Rightarrow> pyfloat" where
  "fneg (Fin q) = (if q = 0 then NegZero else Fin (- q))"
| "fneg NegZero = Fin 0"
| "fneg PInf = NInf"
| "fneg NInf = PInf"
| "fneg FNaN = FNaN"

fun fval :: "pyfloat \<Rightarrow> rat" where
  "fval (Fin q) = q"
| "fval x = 0"

definition is_finite :: "pyfloat \<Rightarrow> bool" where
  "is_finite x = (case x of Fin q \<Rightarrow> True | NegZero \<Rightarrow> True | _ \<Rightarrow> False)"

definition fadd :: "pyfloat \<Rightarrow> pyfloat \<Rightarrow> pyfloat" where
  "fadd x y =
     (if x = FNaN \<or> y = FNaN then FNaN
      else if x = PInf then (if y = NInf then FNaN else PInf)
      else if x = NInf then (if y = PInf then FNaN else NInf)
      else if y = PInf \<or> y = NInf then y
      else if fval x + fval y = 0 then (if x = NegZero \<and> y = NegZero then NegZero else Fin 0)
      else to_double (fval x + fval y))"

definition fsub :: "pyfloat \<Rightarrow> pyfloat \<Rightarrow> pyfloat" where
  "fsub x y = fadd x (fneg y)"

text \<open>\<open>x > 0\<close> and \<open>x < 0\<close> on floats: false for NaN and for both zeros.\<close>

definition fpos :: "pyfloat \<Rightarrow> bool" where
  "fpos x = (case x of Fin q \<Rightarrow> 0 < q | PInf \<Rightarrow> True | _ \<Rightarrow> False)"

definition fnegative :: "pyfloat \<Rightarrow> bool" where
  "fnegative x = (case x of Fin q \<Rightarrow> q < 0 | NInf \<Rightarrow> True | _ \<Rightarrow> False)"

subsection \<open>Reading a float from text\<close>

text \<open>
  The built-in \<open>float(s)\<close> on a string.  Every Unicode decimal digit counts as the
  ASCII digit of its value; the whitespace around the text is dropped, where whitespace
  is the ASCII tab, line feed, vertical tab, form feed, carriage return and blank and
  the whitespace characters beyond ASCII (not the separators U+001C to U+001F); then
  comes an optional sign; then \<open>inf\<close>, \<open>infinity\<close> or \<open>nan\<close> in any ASCII case, or
  a decimal number with an optional fraction and an optional exponent, where single
  underscores may separate digits.  Anything else raises \<open>ValueError\<close>.

  \<open>decimal_zeros\<close> lists the zero digits of the runs of ten decimal digits of Unicode
  14.0, the character database of CPython 3.11.
\<close>

text \<open>
  The exceptions of the program.  \<open>CouldNotConvert\<close> is the \<open>ValueError\<close> of a failed
  conversion to float; \<open>HeaderNotFound\<close>, \<open>MissingColumn\<close> and \<open>NoAmountColumn\<close> are
  the three \<open>ValueError\<close>s that \<open>unify_columns\<close> raises itself; the others are raised
  inside pandas.  \<open>LengthMismatch\<close> is the \<open>ValueError\<close> of assigning a list of the
  wrong length as a column; \<open>ArrayLengthMismatch\<close> and \<open>NotOneDimensional\<close> are the
  \<open>ValueError\<close>s of building a frame from a list whose length differs from the length
  of the index, and from a value that is itself a frame; \<open>NoStrAccessor\<close> is the
  \<open>AttributeError\<close> of taking \<open>.str\<close> of a frame; \<open>CannotAssembleDate\<close> is the
  \<open>ValueError\<close> of \<open>to_datetime\<close> on a frame without year, month and day columns.
  A selection \<open>df[c]\<close> is a frame when the label \<open>c\<close> occurs more than once.
\<close>

datatype error =
    CouldNotConvert ustr
  | HeaderNotFound
  | MissingColumn "ustr list"
  | NoAmountColumn
  | LengthMismatch nat nat
  | ArrayLengthMismatch nat nat
  | NotOneDimensional
  | NoStrAccessor
  | CannotAssembleDate

definition float_space :: "nat \<Rightarrow> bool" where
  "float_space c \<longleftrightarrow> (9 \<le> c \<and> c \<le> 13) \<or> c = 32 \<or> (128 \<le> c \<and> is_space c)"

definition float_strip :: "ustr \<Rightarrow> ustr" where
  "float_strip s = rev (dropWhile float_space (rev (dropWhile float_space s)))"

definition decimal_zeros :: "nat list" where
  "decimal_zeros =
     [48, 1632, 1776, 1984, 2406, 2534, 2662, 2790, 2918, 3046, 3174, 3302, 3430, 3558, 3664,
      3792, 3872, 4160, 4240, 6112, 6160, 6470, 6608, 6784, 6800, 6992, 7088, 7232, 7248,
      42528, 43216, 43264, 43472, 43504, 43600, 44016, 65296, 66720, 68912, 69734, 69872,
      69942, 70096, 70384, 70736, 70864, 71248, 71360, 71472, 71904, 72016, 72784, 73040,
      73120, 92768, 92864, 93008, 120782, 120792, 120802, 120812, 120822, 123200, 123632,
      125264, 130032]"

definition decimal_value :: "nat \<Rightarrow> nat option" where
  "decimal_value c =
     (case filter (\<lambda>z. z \<le> c \<and> c < z + 10) decimal_zeros of
        [] \<Rightarrow> None
      | z # zs \<Rightarrow> Some (c - z))"

definition is_digit :: "nat \<Rightarrow> bool" where
  "is_digit c \<longleftrightarrow> decimal_value c \<noteq> None"

definition digit_of :: "nat \<Rightarrow> nat" where
  "digit_of c = (case decimal_value c of None \<Rightarrow> 0 | Some v \<Rightarrow> v)"

fun take_digitpart :: "ustr \<Rightarrow> nat list \<times> ustr" where
  "take_digitpart (c # u # d # cs) =
     (if is_digit c then
        (if u = 95 \<and> is_digit d
         then (case take_digitpart (d # cs) of (ds, r) \<Rightarrow> (digit_of c # ds, r))
         else (case take_digitpart (u # d # cs) of (ds, r) \<Rightarrow> (digit_of c # ds, r)))
      else ([], c # u # d # cs))"
| "take_digitpart (c # cs) =
     (if is_digit c then (case take_digitpart cs of (ds, r) \<Rightarrow> (digit_of c # ds, r))
      else ([], c # cs))"
| "take_digitpart [] = ([], [])"

definition digits_value :: "nat list \<Rightarrow> nat" where
  "digits_value ds = foldl (\<lambda>n d. 10 * n + d) 0 ds"

definition pow10 :: "int \<Rightarrow> rat" where
  "pow10 e = (if 0 \<le> e then 10 ^ nat e else 1 / 10 ^ nat (- e))"

text \<open>The exponent part: empty, or \<open>e\<close>/\<open>E\<close>, an optional sign and digits, to the end.\<close>

definition parse_exponent :: "ustr \<Rightarrow> int option" where
  "parse_exponent s =
     (case s of
        [] \<Rightarrow> Some 0
      | c # cs \<Rightarrow>
          if c = 101 \<or> c = 69 then
            (let (neg, ds) = (case cs of
                                x # xs \<Rightarrow> if x = 45 then (True, xs) else if x = 43 then (False, xs)
                                          else (False, cs)
                              | [] \<Rightarrow> (False, cs))
             in case take_digitpart ds of
                  (es, r) \<Rightarrow> if es = [] \<or> r \<noteq> [] then None
                             else Some (if neg then - int (digits_value es) else int (digits_value es)))
          else None)"

text \<open>An unsigned number: its exact decimal value, if the text is one.\<close>

definition parse_number :: "ustr \<Rightarrow> rat option" where
  "parse_number s =
     (case take_digitpart s of
        (ip, r) \<Rightarrow>
          (case r of
             c # cs \<Rightarrow>
               if c = 46 then
                 (case take_digitpart cs of
                    (fp, r2) \<Rightarrow>
                      if ip = [] \<and> fp = [] then None
                      else (case parse_exponent r2 of
                              None \<Rightarrow> None
                            | Some e \<Rightarrow>
                                Some (of_nat (digits_value (ip @ fp)) * pow10 (e - int (length fp)))))
               else if ip = [] then None
               else (case parse_exponent r of
                       None \<Rightarrow> None
                     | Some e \<Rightarrow> Some (of_nat (digits_value ip) * pow10 e))
           | [] \<Rightarrow> if ip = [] then None else Some (of_nat (digits_value ip))))"

definition py_float :: "ustr \<Rightarrow> error + pyfloat" where
  "py_float s =
     (let t = float_strip s;
          (neg, body) = (case t of
                           c # cs \<Rightarrow> if c = 45 then (True, cs) else if c = 43 then (False, cs)
                                     else (False, t)
                         | [] \<Rightarrow> (False, t));
          word = ascii_lower body
      in if word = ascii ''inf'' \<or> word = ascii ''infinity'' then Inr (if neg then NInf else PInf)
         else if word = ascii ''nan'' then Inr FNaN
         else (case parse_number body of
                 None \<Rightarrow> Inl (CouldNotConvert s)
               | Some q \<Rightarrow> Inr (if neg then fneg (to_double q) else to_double q)))"

section \<open>Rule engine\<close>

text \<open>
  A rule is a dictionary read with \<open>r.get\<close>: a key that is absent or null gives
  \<open>None\<close>.  A record to classify is read the same way.
\<close>

record rule =
  keyword :: "ustr option"
  target :: "ustr option"
  category :: "ustr option"
  category_l1 :: "ustr option"
  category_l2 :: "ustr option"
  category_l3 :: "ustr option"
  is_fixed :: "bool option"

record txrow =
  description :: "ustr option"
  memo :: "ustr option"
  vendor_normalized :: "ustr option"

record classification =
  r_category :: ustr
  r_category_l1 :: "ustr option"
  r_category_l2 :: "ustr option"
  r_category_l3 :: "ustr option"
  r_is_fixed :: bool

definition mibunryu :: ustr where
  "mibunryu = [48120, 48516, 47448]"

definition default_result :: classification where
  "default_result = \<lparr>r_category = mibunryu, r_category_l1 = None, r_category_l2 = None,
     r_category_l3 = None, r_is_fixed = False\<rparr>"

text \<open>\<open>_safe_lower\<close>, with \<open>str.lower()\<close> as the parameter \<open>low\<close>.\<close>

definition safe_lower :: "(ustr \<Rightarrow> ustr) \<Rightarrow> ustr option \<Rightarrow> ustr" where
  "safe_lower low v = (case v of None \<Rightarrow> [] | Some s \<Rightarrow> low s)"

text \<open>
  \<open>a or d\<close> where \<open>a\<close> is optional text and \<open>d\<close> is text: \<open>None\<close> and the empty
  string are both falsy, so either gives \<open>d\<close>.
\<close>

definition py_or :: "ustr option \<Rightarrow> ustr \<Rightarrow> ustr" where
  "py_or a d = (case a of None \<Rightarrow> d | Some s \<Rightarrow> if s = [] then d else s)"

definition rule_target :: "(ustr \<Rightarrow> ustr) \<Rightarrow> rule \<Rightarrow> ustr" where
  "rule_target low r = low (py_or (target r) (ascii ''any''))"

definition hit :: "(ustr \<Rightarrow> ustr) \<Rightarrow> txrow \<Rightarrow> rule \<Rightarrow> bool" where
  "hit low row r =
     (let desc = safe_lower low (description row);
          mem = safe_lower low (memo row);
          vendor = safe_lower low (vendor_normalized row);
          kw = safe_lower low (keyword r);
          tgt = rule_target low r
      in (tgt = ascii ''description'' \<and> py_in kw desc) \<or>
         (tgt = ascii ''memo'' \<and> py_in kw mem) \<or>
         (tgt = ascii ''vendor'' \<and> py_in kw vendor) \<or>
         (tgt = ascii ''any'' \<and> (py_in kw desc \<or> py_in kw mem \<or> py_in kw vendor)))"

definition rule_result :: "rule \<Rightarrow> classification" where
  "rule_result r =
     (let c1 = category_l1 r; c2 = category_l2 r; c3 = category_l3 r;
          cat = py_or (category r) (py_or c3 (py_or c2 (py_or c1 mibunryu)))
      in \<lparr>r_category = cat, r_category_l1 = c1, r_category_l2 = c2, r_category_l3 = c3,
          r_is_fixed = (case is_fixed r of None \<Rightarrow> False | Some b \<Rightarrow> b)\<rparr>)"

fun apply_rules :: "(ustr \<Rightarrow> ustr) \<Rightarrow> txrow \<Rightarrow> rule list \<Rightarrow> classification" where
  "apply_rules low row [] = default_result"
| "apply_rules low row (r # rules) =
     (if safe_lower low (keyword r) = [] then apply_rules low row rules
      else if hit low row r then rule_result r
      else apply_rules low row rules)"

subsection \<open>The rule engine as the specification words it\<close>

text \<open>
  The fields a target selects, the test of one rule, and the category of a matching
  rule: the flat category, else the deepest level that is not null, else the default.
\<close>

definition selected_fields :: "txrow \<Rightarrow> ustr \<Rightarrow> ustr option list" where
  "selected_fields row tgt =
     (if tgt = ascii ''description'' then [description row]
      else if tgt = ascii ''memo'' then [memo row]
      else if tgt = ascii ''vendor'' then [vendor_normalized row]
      else if tgt = ascii ''any'' then [description row, memo row, vendor_normalized row]
      else [])"

definition spec_match :: "(ustr \<Rightarrow> ustr) \<Rightarrow> txrow \<Rightarrow> rule \<Rightarrow> bool" where
  "spec_match low row r =
     (safe_lower low (keyword r) \<noteq> [] \<and>
      list_ex (\<lambda>f. py_in (safe_lower low (keyword r)) (safe_lower low f))
        (selected_fields row (rule_target low r)))"

definition first_non_null :: "ustr option list \<Rightarrow> ustr \<Rightarrow> ustr" where
  "first_non_null vs d = (case List.find (\<lambda>v. v \<noteq> None) vs of Some (Some s) \<Rightarrow> s | _ \<Rightarrow> d)"

definition spec_category :: "rule \<Rightarrow> ustr" where
  "spec_category r = first_non_null [category r, category_l3 r, category_l2 r, category_l1 r] mibunryu"

definition first_non_empty :: "ustr option list \<Rightarrow> ustr \<Rightarrow> ustr" where
  "first_non_empty vs d =
     (case List.find (\<lambda>v. v \<noteq> None \<and> v \<noteq> Some []) vs of Some (Some s) \<Rightarrow> s | _ \<Rightarrow> d)"

definition amended_category :: "rule \<Rightarrow> ustr" where
  "amended_category r =
     first_non_empty [category r, category_l3 r, category_l2 r, category_l1 r] mibunryu"

definition result_of :: "(rule \<Rightarrow> ustr) \<Rightarrow> rule \<Rightarrow> classification" where
  "result_of cat r = \<lparr>r_category = cat r, r_category_l1 = category_l1 r,
     r_category_l2 = category_l2 r, r_category_l3 = category_l3 r,
     r_is_fixed = (is_fixed r = Some True)\<rparr>"

definition first_match ::
  "(ustr \<Rightarrow> ustr) \<Rightarrow> (rule \<Rightarrow> ustr) \<Rightarrow> txrow \<Rightarrow> rule list \<Rightarrow> classification" where
  "first_match low cat row rules =
     (case List.find (spec_match low row) rules of
        None \<Rightarrow> default_result
      | Some r \<Rightarrow> result_of cat r)"

subsection \<open>Sample rules and records\<close>

definition starbucks :: ustr where
  "starbucks = [49828, 53440, 48261, 49828]"

definition cafe :: ustr where
  "cafe = [52852, 54168]"

definition rule_cafe :: rule where
  "rule_cafe = \<lparr>keyword = Some starbucks, target = Some (ascii ''vendor''), category = Some cafe,
     category_l1 = None, category_l2 = None, category_l3 = None, is_fixed = None\<rparr>"

definition row_starbucks :: txrow where
  "row_starbucks = \<lparr>description = Some starbucks, memo = None, vendor_normalized = Some starbucks\<rparr>"

definition row_cu :: txrow where
  "row_cu = \<lparr>description = Some (ascii ''cu''), memo = None, vendor_normalized = Some (ascii ''cu'')\<rparr>"

definition rule_empty_l3 :: rule where
  "rule_empty_l3 = \<lparr>keyword = Some (ascii ''cu''), target = None, category = None,
     category_l1 = None, category_l2 = Some (ascii ''store''), category_l3 = Some [],
     is_fixed = Some True\<rparr>"

section \<open>Spreadsheet loader\<close>

text \<open>
  \<open>os.path.splitext(name)[1]\<close> with the POSIX separator: the extension starts at the
  last dot of the last path component, provided a character other than a dot precedes
  it in that component; otherwise it is empty.
\<close>

definition splitext_ext :: "ustr \<Rightarrow> ustr" where
  "splitext_ext p =
     (let base = rev (takeWhile (\<lambda>c. c \<noteq> 47) (rev p));
          r = rev base;
          tail = takeWhile (\<lambda>c. c \<noteq> 46) r;
          rest = dropWhile (\<lambda>c. c \<noteq> 46) r
      in case rest of
           [] \<Rightarrow> []
         | d # before \<Rightarrow> if list_ex (\<lambda>c. c \<noteq> 46) before then 46 # rev tail else [])"

text \<open>
  The decoders are library calls (\<open>pandas.read_excel\<close> with three engines,
  \<open>pandas.read_csv\<close>, \<open>Xlsx2csv\<close>); they enter as parameters.  Each takes the bytes
  and gives a table (\<open>Inr\<close>) or raises an exception with a message (\<open>Inl\<close>).  The
  blocks \<open>xlsx2csv\<close> and \<open>csv_final\<close> stand for the whole body of their \<open>try\<close>.
\<close>

record ('b, 'f) decoders =
  openpyxl :: "'b \<Rightarrow> ustr + 'f"
  xlrd :: "'b \<Rightarrow> ustr + 'f"
  pyxlsb :: "'b \<Rightarrow> ustr + 'f"
  read_csv :: "ustr \<Rightarrow> 'b \<Rightarrow> ustr + 'f"
  xlsx2csv :: "'b \<Rightarrow> ustr + 'f"
  csv_final :: "'b \<Rightarrow> ustr + 'f"

text \<open>
  One \<open>try: return decode(...) except Exception as e: errors.append(f"label: {e}")\<close>.
  \<open>Inl\<close> is the table returned from the function, \<open>Inr\<close> the error list with which
  the function goes on.
\<close>

definition attempt :: "ustr \<Rightarrow> (ustr + 'f) \<Rightarrow> ustr list \<Rightarrow> 'f + ustr list" where
  "attempt label res errors =
     (case res of Inr df \<Rightarrow> Inl df | Inl e \<Rightarrow> Inr (errors @ [label @ ascii '': '' @ e]))"

definition then_try :: "'f + ustr list \<Rightarrow> (ustr list \<Rightarrow> 'f + ustr list) \<Rightarrow> 'f + ustr list" where
  "then_try st k = (case st of Inl df \<Rightarrow> Inl df | Inr errors \<Rightarrow> k errors)"

definition csv_label :: "ustr \<Rightarrow> ustr" where
  "csv_label enc = ascii ''csv('' @ enc @ ascii '')''"

fun csv_loop :: "('b, 'f) decoders \<Rightarrow> 'b \<Rightarrow> ustr list \<Rightarrow> ustr list \<Rightarrow> 'f + ustr list" where
  "csv_loop D content [] errors = Inr errors"
| "csv_loop D content (enc # encs) errors =
     then_try (attempt (csv_label enc) (read_csv D enc content) errors)
       (\<lambda>errors. csv_loop D content encs errors)"

definition csv_encodings :: "ustr list" where
  "csv_encodings = [ascii ''utf-8-sig'', ascii ''cp949'', ascii ''euc-kr'']"

definition xlsx_exts :: "ustr list" where
  "xlsx_exts = [ascii ''.xlsx'', ascii ''.xlsm'', ascii ''.xltx'', ascii ''.xltm'', []]"

fun py_join :: "ustr \<Rightarrow> ustr list \<Rightarrow> ustr" where
  "py_join sep [] = []"
| "py_join sep [x] = x"
| "py_join sep (x # y # ys) = x @ sep @ py_join sep (y # ys)"

definition load_failed :: ustr where
  "load_failed = [49828, 54532, 47112, 46300, 49884, 53944, 32, 54028, 49905, 32, 49892, 54056,
     32, 8594, 32]"

definition load_by_ext :: "('b, 'f) decoders \<Rightarrow> 'b \<Rightarrow> ustr \<Rightarrow> ustr + 'f" where
  "load_by_ext D content ext =
     (case
        then_try (then_try (then_try (then_try (then_try
          (if ext \<in> set xlsx_exts then attempt (ascii ''openpyxl'') (openpyxl D content) []
           else Inr [])
          (\<lambda>errors. if ext = ascii ''.xls'' then attempt (ascii ''xlrd'') (xlrd D content) errors
             else Inr errors))
          (\<lambda>errors. if ext = ascii ''.xlsb'' then attempt (ascii ''pyxlsb'') (pyxlsb D content) errors
             else Inr errors))
          (\<lambda>errors. if ext = ascii ''.csv'' then csv_loop D content csv_encodings errors
             else Inr errors))
          (\<lambda>errors. attempt (ascii ''xlsx2csv'') (xlsx2csv D content) errors))
          (\<lambda>errors. attempt (ascii ''csv-final'') (csv_final D content) errors)
      of Inl df \<Rightarrow> Inr df
       | Inr errors \<Rightarrow> Inl (load_failed @ py_join (ascii '' | '') errors))"

definition load_spreadsheet ::
  "(ustr \<Rightarrow> ustr) \<Rightarrow> ('b, 'f) decoders \<Rightarrow> 'b \<Rightarrow> ustr option \<Rightarrow> ustr + 'f" where
  "load_spreadsheet low D content filename =
     (let name = low (py_or filename []);
          ext = splitext_ext name
      in load_by_ext D content ext)"

subsection \<open>The loader as the specification words it\<close>

text \<open>
  The candidate chain of an extension, as labelled decoders in the order they are tried,
  and the "first-of" combinator: the table of the first decoder that succeeds, or the
  aggregated messages of all of them.
\<close>

definition chain :: "('b, 'f) decoders \<Rightarrow> ustr \<Rightarrow> (ustr \<times> ('b \<Rightarrow> ustr + 'f)) list" where
  "chain D ext =
     (if ext \<in> set xlsx_exts then [(ascii ''openpyxl'', openpyxl D)] else []) @
     (if ext = ascii ''.xls'' then [(ascii ''xlrd'', xlrd D)] else []) @
     (if ext = ascii ''.xlsb'' then [(ascii ''pyxlsb'', pyxlsb D)] else []) @
     (if ext = ascii ''.csv'' then map (\<lambda>enc. (csv_label enc, read_csv D enc)) csv_encodings else []) @
     [(ascii ''xlsx2csv'', xlsx2csv D), (ascii ''csv-final'', csv_final D)]"

definition failure_line :: "'b \<Rightarrow> ustr \<times> ('b \<Rightarrow> ustr + 'f) \<Rightarrow> ustr" where
  "failure_line content ld = fst ld @ ascii '': '' @ (case snd ld content of Inl e \<Rightarrow> e | Inr df \<Rightarrow> [])"

definition first_of :: "(ustr \<times> ('b \<Rightarrow> ustr + 'f)) list \<Rightarrow> 'b \<Rightarrow> ustr + 'f" where
  "first_of ds content =
     (case List.find (\<lambda>ld. \<not> isl (snd ld content)) ds of
        Some ld \<Rightarrow> snd ld content
      | None \<Rightarrow> Inl (load_failed @ py_join (ascii '' | '') (map (failure_line content) ds)))"

text \<open>
  The loop over a list of labelled decoders that the blocks of \<open>load_spreadsheet\<close>
  unfold to: stop at the first success, else collect one line per failure.
\<close>

fun run_chain :: "(ustr \<times> ('b \<Rightarrow> ustr + 'f)) list \<Rightarrow> 'b \<Rightarrow> ustr list \<Rightarrow> 'f + ustr list" where
  "run_chain [] content errors = Inr errors"
| "run_chain (ld # ds) content errors =
     (case snd ld content of
        Inr df \<Rightarrow> Inl df
      | Inl e \<Rightarrow> run_chain ds content (errors @ [fst ld @ ascii '': '' @ e]))"

subsection \<open>Sample decoders\<close>

text \<open>
  Decoders for a file that is not a workbook but is text: every workbook decoder fails,
  the delimited-text decoders succeed; and decoders that all fail.
\<close>

definition text_only :: "(ustr, ustr list list) decoders" where
  "text_only = \<lparr>openpyxl = (\<lambda>b. Inl (ascii ''not a zip file'')),
     xlrd = (\<lambda>b. Inl (ascii ''unsupported format'')),
     pyxlsb = (\<lambda>b. Inl (ascii ''not a zip file'')),
     read_csv = (\<lambda>enc b. Inr [[b]]),
     xlsx2csv = (\<lambda>b. Inl (ascii ''invalid xlsx'')),
     csv_final = (\<lambda>b. Inr [[b]])\<rparr>"

definition all_fail :: "(ustr, ustr list list) decoders" where
  "all_fail = \<lparr>openpyxl = (\<lambda>b. Inl (ascii ''e1'')),
     xlrd = (\<lambda>b. Inl (ascii ''e2'')),
     pyxlsb = (\<lambda>b. Inl (ascii ''e3'')),
     read_csv = (\<lambda>enc b. Inl (ascii ''e4'')),
     xlsx2csv = (\<lambda>b. Inl (ascii ''e5'')),
     csv_final = (\<lambda>b. Inl (ascii ''e6''))\<rparr>"

section \<open>Cells and money\<close>

text \<open>
  The loader reads every cell as text (\<open>dtype=str\<close>): a cell is a string or the
  missing value NaN.  \<open>str(x)\<close> of a cell is the string itself, or \<open>"nan"\<close>.
\<close>

datatype cell = NaN | S ustr

definition str_cell :: "cell \<Rightarrow> ustr" where
  "str_cell x = (case x of NaN \<Rightarrow> ascii ''nan'' | S s \<Rightarrow> s)"

text \<open>
  The substitution \<open>re.sub\<close> with a character class: the won sign U+20A9, the won
  syllable U+C6D0, the comma and every whitespace character (\<open>\s\<close>) are removed.
\<close>

definition money_noise :: "nat \<Rightarrow> bool" where
  "money_noise c \<longleftrightarrow> c = 8361 \<or> c = 50896 \<or> c = 44 \<or> is_space c"

definition strip_money :: "ustr \<Rightarrow> ustr" where
  "strip_money s = filter (\<lambda>c. \<not> money_noise c) s"

text \<open>
  \<open>_parse_money\<close>.  The argument is \<open>None\<close> or a cell.  The bare \<open>except\<close> around
  \<open>float(s)\<close> turns every failure of the conversion into \<open>0.0\<close>.
\<close>

definition parse_money :: "cell option \<Rightarrow> error + pyfloat" where
  "parse_money v =
     (case v of
        None \<Rightarrow> Inr (Fin 0)
      | Some NaN \<Rightarrow> Inr (Fin 0)
      | Some (S t) \<Rightarrow>
          (let s = strip_money t
           in if s = [] then Inr (Fin 0)
              else (case py_float s of Inr x \<Rightarrow> Inr x | Inl e \<Rightarrow> Inr (Fin 0))))"

text \<open>The float that \<open>_parse_money\<close> returns for a cell.\<close>

definition money :: "cell \<Rightarrow> pyfloat" where
  "money x = (case parse_money (Some x) of Inr v \<Rightarrow> v | Inl e \<Rightarrow> Fin 0)"

subsection \<open>Sample amounts\<close>

definition won_suffixed :: ustr where
  "won_suffixed = ascii ''1,234,500'' @ [50896]"

definition won_prefixed :: ustr where
  "won_prefixed = [8361] @ ascii '' 1,000''"

section \<open>Raw tables\<close>

text \<open>
  The raw table of the loader is a header-less frame: a list of rows, each a list of
  cells, all of one length.  \<open>shape1\<close> is \<open>df.shape[1]\<close>; a frame without rows has no
  row in which a header could be found, so its width plays no role.  \<open>cell_at\<close> reads
  a cell by position.
\<close>

type_synonym frame = "cell list list"

definition shape1 :: "frame \<Rightarrow> nat" where
  "shape1 df = (case df of [] \<Rightarrow> 0 | r # rs \<Rightarrow> length r)"

definition cell_at :: "cell list \<Rightarrow> nat \<Rightarrow> cell" where
  "cell_at r j = (if j < length r then r ! j else NaN)"

fun first_index :: "('a \<Rightarrow> bool) \<Rightarrow> 'a list \<Rightarrow> nat option" where
  "first_index P [] = None"
| "first_index P (x # xs) = (if P x then Some 0 else map_option Suc (first_index P xs))"

text \<open>\<open>"".join(str(x) for x in df.iloc[i].tolist())\<close>\<close>

definition row_text :: "cell list \<Rightarrow> ustr" where
  "row_text r = concat (map str_cell r)"

text \<open>
  The loop \<open>for i in range(min(n, len(df)))\<close> that stops at the first row passing a
  test.
\<close>

definition header_search :: "nat \<Rightarrow> (cell list \<Rightarrow> bool) \<Rightarrow> frame \<Rightarrow> nat option" where
  "header_search n test df = first_index test (take n df)"

text \<open>
  Columns are addressed by label.  With a label that occurs once, \<open>df[c]\<close> is the column
  at the position of the label.  With a label that occurs several times \<open>df[c]\<close> is a
  frame of all columns of that label; where the detectors then fail (the \<open>.str\<close> accessor,
  \<open>to_datetime\<close>) the failure is modelled below, and elsewhere the first column of the
  label is read.
\<close>

definition col_pos :: "ustr list \<Rightarrow> ustr \<Rightarrow> nat" where
  "col_pos columns c = length (takeWhile (\<lambda>x. x \<noteq> c) columns)"

definition column :: "ustr list \<Rightarrow> frame \<Rightarrow> ustr \<Rightarrow> cell list" where
  "column columns rows c = map (\<lambda>r. cell_at r (col_pos columns c)) rows"

definition bind_err :: "error + 'a \<Rightarrow> ('a \<Rightarrow> error + 'b) \<Rightarrow> error + 'b" where
  "bind_err m k = (case m of Inl e \<Rightarrow> Inl e | Inr x \<Rightarrow> k x)"

fun traverse :: "('a \<Rightarrow> error + 'b) \<Rightarrow> 'a list \<Rightarrow> error + 'b list" where
  "traverse f [] = Inr []"
| "traverse f (x # xs) = bind_err (f x) (\<lambda>y. bind_err (traverse f xs) (\<lambda>ys. Inr (y # ys)))"

section \<open>Bank-specific detectors\<close>

text \<open>
  The cleaning of a numeric column in both detectors:
  \<open>.astype(str).str.replace(",", "").str.replace(W, "").replace("-", "0").replace("", "0").astype(float)\<close>
  where \<open>W\<close> is the won syllable.  The two \<open>str.replace\<close> delete characters; the two
  \<open>replace\<close> exchange a whole cell; \<open>astype(float)\<close> converts every cell with \<open>float\<close>
  and raises at the first cell that is not a number.  When the label occurs more than
  once the selection is a frame and \<open>.str\<close> does not exist.
\<close>

definition clean_number :: "cell \<Rightarrow> ustr" where
  "clean_number x =
     (let s = str_cell x;
          s = filter (\<lambda>c. c \<noteq> 44) s;
          s = filter (\<lambda>c. c \<noteq> 50896) s;
          s = (if s = ascii ''-'' then ascii ''0'' else s);
          s = (if s = [] then ascii ''0'' else s)
      in s)"

definition numeric_column :: "ustr list \<Rightarrow> frame \<Rightarrow> ustr \<Rightarrow> error + pyfloat list" where
  "numeric_column columns rows c =
     (if count_list columns c \<noteq> 1 then Inl NoStrAccessor
      else traverse (\<lambda>x. py_float (clean_number x)) (column columns rows c))"

text \<open>
  \<open>pandas.to_datetime(column, errors="coerce")\<close> is a library call and enters as the
  parameter \<open>to_dt\<close>: given the column and a position it gives the parsed date, or
  \<open>None\<close> for NaT.  A missing cell is always NaT.  Given a frame (duplicated label) the
  call raises.
\<close>

definition to_datetime :: "(cell list \<Rightarrow> nat \<Rightarrow> 'd option) \<Rightarrow> cell list \<Rightarrow> 'd option list" where
  "to_datetime to_dt col =
     map (\<lambda>i. case col ! i of NaN \<Rightarrow> None | S s \<Rightarrow> to_dt col i) [0..<length col]"

definition date_column ::
  "(cell list \<Rightarrow> nat \<Rightarrow> 'd option) \<Rightarrow> ustr list \<Rightarrow> frame \<Rightarrow> ustr \<Rightarrow> error + 'd option list" where
  "date_column to_dt columns rows c =
     (if count_list columns c \<noteq> 1 then Inl CannotAssembleDate
      else Inr (to_datetime to_dt (column columns rows c)))"

text \<open>
  A row of a unified table.  A field whose column the table does not have is \<open>None\<close>;
  \<open>u_date = None\<close> is NaT.
\<close>

record 'd urow =
  u_date :: "'d option"
  u_type :: "cell option"
  u_description :: cell
  u_out_amount :: "pyfloat option"
  u_in_amount :: "pyfloat option"
  u_balance :: "pyfloat option"
  u_branch :: "cell option"
  u_amount :: pyfloat
  u_tx_type :: "ustr option"

text \<open>\<open>lambda x: "IN" if x > 0 else "OUT"\<close>\<close>

definition tx_type_of :: "pyfloat \<Rightarrow> ustr" where
  "tx_type_of x = (if fpos x then ascii ''IN'' else ascii ''OUT'')"

definition lbl_datetime :: ustr where
  "lbl_datetime = [44144, 47000, 51068, 49884]"

definition lbl_jeokyo :: ustr where
  "lbl_jeokyo = [51201, 50836]"

definition lbl_ipgeum :: ustr where
  "lbl_ipgeum = [51077, 44552]"

definition lbl_content :: ustr where
  "lbl_content = [44592, 51116, 45236, 50857]"

definition lbl_out_won :: ustr where
  "lbl_out_won = [51648, 44553, 40, 50896, 41]"

definition lbl_in_won :: ustr where
  "lbl_in_won = [51077, 44552, 40, 50896, 41]"

definition lbl_balance_after_won :: ustr where
  "lbl_balance_after_won = [44144, 47000, 54980, 32, 51092, 50529, 40, 50896, 41]"

definition lbl_branch :: ustr where
  "lbl_branch = [52712, 44553, 51216]"

definition lbl_sender :: ustr where
  "lbl_sender = [48372, 45240, 48516]"

definition lbl_receiver :: ustr where
  "lbl_receiver = [48155, 45716, 48516]"

definition lbl_sender_receiver :: ustr where
  "lbl_sender_receiver = [48372, 45240, 48516, 47, 48155, 45716, 48516]"

definition lbl_kb_out :: ustr where
  "lbl_kb_out = [52636, 44552, 50529, 40, 50896, 41]"

definition lbl_kb_in :: ustr where
  "lbl_kb_in = [51077, 44552, 50529, 40, 50896, 41]"

definition lbl_kb_balance :: ustr where
  "lbl_kb_balance = [51092, 50529, 40, 50896, 41]"

definition woori_signature :: "cell list \<Rightarrow> bool" where
  "woori_signature r =
     (let row = row_text r
      in py_in lbl_datetime row \<and> py_in lbl_jeokyo row \<and> py_in lbl_ipgeum row)"

definition woori_needed :: "ustr list" where
  "woori_needed = [lbl_datetime, lbl_jeokyo, lbl_content, lbl_out_won, lbl_in_won,
     lbl_balance_after_won, lbl_branch]"

text \<open>
  \<open>dropna(subset=[date label])\<close>: the rows whose date cell is missing are dropped.  The
  rows carry their three converted numbers along.
\<close>

definition dropna_date ::
  "ustr list \<Rightarrow> ustr \<Rightarrow> (cell list \<times> pyfloat \<times> pyfloat \<times> pyfloat) list \<Rightarrow>
   (cell list \<times> pyfloat \<times> pyfloat \<times> pyfloat) list" where
  "dropna_date columns c rows = filter (\<lambda>(r, n). cell_at r (col_pos columns c) \<noteq> NaN) rows"

definition woori_row ::
  "ustr list \<Rightarrow> 'd option \<Rightarrow> cell list \<times> pyfloat \<times> pyfloat \<times> pyfloat \<Rightarrow> 'd urow" where
  "woori_row columns d x =
     (case x of (r, out_amount, in_amount, balance) \<Rightarrow>
        (let amount = fsub in_amount out_amount
         in \<lparr>u_date = d,
             u_type = Some (cell_at r (col_pos columns lbl_jeokyo)),
             u_description = cell_at r (col_pos columns lbl_content),
             u_out_amount = Some out_amount,
             u_in_amount = Some in_amount,
             u_balance = Some balance,
             u_branch = Some (cell_at r (col_pos columns lbl_branch)),
             u_amount = amount,
             u_tx_type = Some (tx_type_of amount)\<rparr>))"

definition parse_woori_excel ::
  "(cell list \<Rightarrow> nat \<Rightarrow> 'd option) \<Rightarrow> frame \<Rightarrow> error + 'd urow list option" where
  "parse_woori_excel to_dt df =
     (if shape1 df < 5 then Inr None
      else case header_search 30 woori_signature df of
        None \<Rightarrow> Inr None
      | Some header_row \<Rightarrow>
          (let df_data = drop (header_row + 1) df;
               columns = map (\<lambda>x. strip (str_cell x)) (df ! header_row)
           in if \<not> list_all (\<lambda>c. c \<in> set columns) woori_needed then Inr None
              else
                bind_err (numeric_column columns df_data lbl_out_won) (\<lambda>out_amount.
                bind_err (numeric_column columns df_data lbl_in_won) (\<lambda>in_amount.
                bind_err (numeric_column columns df_data lbl_balance_after_won) (\<lambda>balance.
                  (let rows = dropna_date columns lbl_datetime
                                (zip df_data (zip out_amount (zip in_amount balance)))
                   in bind_err (date_column to_dt columns (map fst rows) lbl_datetime) (\<lambda>dates.
                        Inr (Some (map2 (woori_row columns) dates rows)))))))))"

definition kb_signature :: "cell list \<Rightarrow> bool" where
  "kb_signature r =
     (let row_text = row_text r
      in py_in lbl_datetime row_text \<and> (py_in lbl_sender row_text \<or> py_in lbl_receiver row_text))"

definition kb_needed :: "ustr list" where
  "kb_needed = [lbl_datetime, lbl_sender_receiver, lbl_kb_out, lbl_kb_in, lbl_kb_balance]"

definition kb_row ::
  "ustr list \<Rightarrow> 'd option \<Rightarrow> cell list \<times> pyfloat \<times> pyfloat \<times> pyfloat \<Rightarrow> 'd urow" where
  "kb_row columns d x =
     (case x of (r, out_amount, in_amount, balance) \<Rightarrow>
        (let amount = fsub in_amount out_amount
         in \<lparr>u_date = d,
             u_type = None,
             u_description = cell_at r (col_pos columns lbl_sender_receiver),
             u_out_amount = Some out_amount,
             u_in_amount = Some in_amount,
             u_balance = Some balance,
             u_branch = None,
             u_amount = amount,
             u_tx_type = Some (tx_type_of amount)\<rparr>))"

definition parse_kb_excel ::
  "(cell list \<Rightarrow> nat \<Rightarrow> 'd option) \<Rightarrow> frame \<Rightarrow> error + 'd urow list option" where
  "parse_kb_excel to_dt df =
     (if shape1 df < 5 then Inr None
      else case header_search 30 kb_signature df of
        None \<Rightarrow> Inr None
      | Some header_row \<Rightarrow>
          (let df_data = drop (header_row + 1) df;
               columns = map (\<lambda>x. strip (str_cell x)) (df ! header_row)
           in if \<not> list_all (\<lambda>c. c \<in> set columns) kb_needed then Inr None
              else
                bind_err (numeric_column columns df_data lbl_kb_out) (\<lambda>out_amount.
                bind_err (numeric_column columns df_data lbl_kb_in) (\<lambda>in_amount.
                bind_err (numeric_column columns df_data lbl_kb_balance) (\<lambda>balance.
                  (let rows = dropna_date columns lbl_datetime
                                (zip df_data (zip out_amount (zip in_amount balance)))
                   in bind_err (date_column to_dt columns (map fst rows) lbl_datetime) (\<lambda>dates.
                        Inr (Some (map2 (kb_row columns) dates rows)))))))))"

subsection \<open>Sample statements\<close>

text \<open>
  A statement in the first bank's layout: the header row, a deposit, a row without a
  date cell, and a row whose date cell is the text \<open>abc\<close>; and one whose only data row
  has an amount written with the won sign.  The same for the second bank's layout.
\<close>

definition woori_header :: "cell list" where
  "woori_header = map S woori_needed"

definition woori_salary :: "cell list" where
  "woori_salary = [S (ascii ''2024-02-05''), S (ascii ''in''), S (ascii ''salary''),
     S (ascii ''0''), S (ascii ''1000''), S (ascii ''1000''), S (ascii ''hq'')]"

definition woori_undated :: "cell list" where
  "woori_undated = [NaN, S (ascii ''in''), S (ascii ''x''),
     S (ascii ''0''), S (ascii ''0''), S (ascii ''1000''), S (ascii ''hq'')]"

definition woori_bad_date :: "cell list" where
  "woori_bad_date = [S (ascii ''abc''), S (ascii ''out''), S (ascii ''cafe''),
     S (ascii ''1000''), S (ascii ''-''), S (ascii ''0''), S (ascii ''hq'')]"

definition woori_bad_amount :: "cell list" where
  "woori_bad_amount = [S (ascii ''2024-01-06''), S (ascii ''out''), S (ascii ''cafe''),
     S won_prefixed, S (ascii ''0''), S (ascii ''0''), S (ascii ''hq'')]"

definition woori_table :: frame where
  "woori_table = [woori_header, woori_salary, woori_undated, woori_bad_date]"

definition woori_bad_table :: frame where
  "woori_bad_table = [woori_header, woori_bad_amount]"

definition kb_header :: "cell list" where
  "kb_header = map S kb_needed"

definition kb_bad_date :: "cell list" where
  "kb_bad_date = [S (ascii ''abc''), S (ascii ''cafe''), S (ascii ''1000''), S (ascii ''-''),
     S (ascii ''0'')]"

definition kb_bad_amount :: "cell list" where
  "kb_bad_amount = [S (ascii ''2024-01-06''), S (ascii ''cafe''), S won_prefixed,
     S (ascii ''0''), S (ascii ''0'')]"

definition kb_table :: frame where
  "kb_table = [kb_header, kb_bad_date]"

definition kb_bad_table :: frame where
  "kb_bad_table = [kb_header, kb_bad_amount]"

text \<open>The rows that the detectors make of the two sample statements.\<close>

definition woori_rows :: "(nat \<times> nat \<times> nat) urow list" where
  "woori_rows =
     [\<lparr>u_date = Some (2024, 2, 5), u_type = Some (S (ascii ''in'')),
       u_description = S (ascii ''salary''), u_out_amount = Some (Fin 0),
       u_in_amount = Some (Fin 1000), u_balance = Some (Fin 1000),
       u_branch = Some (S (ascii ''hq'')), u_amount = Fin 1000,
       u_tx_type = Some (ascii ''IN'')\<rparr>,
      \<lparr>u_date = None, u_type = Some (S (ascii ''out'')),
       u_description = S (ascii ''cafe''), u_out_amount = Some (Fin 1000),
       u_in_amount = Some (Fin 0), u_balance = Some (Fin 0),
       u_branch = Some (S (ascii ''hq'')), u_amount = Fin (- 1000),
       u_tx_type = Some (ascii ''OUT'')\<rparr>]"

definition kb_rows :: "(nat \<times> nat \<times> nat) urow list" where
  "kb_rows =
     [\<lparr>u_date = None, u_type = None, u_description = S (ascii ''cafe''),
       u_out_amount = Some (Fin 1000), u_in_amount = Some (Fin 0), u_balance = Some (Fin 0),
       u_branch = None, u_amount = Fin (- 1000), u_tx_type = Some (ascii ''OUT'')\<rparr>]"

subsection \<open>The date cells of a detected statement\<close>

text \<open>
  The cells of the date column below the header row that a detector finds, without the
  missing ones.
\<close>

definition date_cells :: "(cell list \<Rightarrow> bool) \<Rightarrow> frame \<Rightarrow> cell list" where
  "date_cells sig df =
     (case header_search 30 sig df of
        None \<Rightarrow> []
      | Some h \<Rightarrow>
          (let columns = map (\<lambda>x. strip (str_cell x)) (df ! h)
           in filter (\<lambda>x. x \<noteq> NaN) (column columns (drop (h + 1) df) lbl_datetime)))"

section \<open>Generic header guessing\<close>

text \<open>
  The header keywords are regular expressions made of literal characters, \<open>\s*\<close> and
  \<open>.?\<close> only.  A pattern is a list of such atoms.  \<open>rx_prefix p s\<close> holds when \<open>p\<close>
  matches a prefix of \<open>s\<close>, and \<open>re_search\<close> is \<open>re.search(p, s, re.I)\<close>: a match
  starting anywhere.  Under \<open>re.I\<close> a literal matches the characters whose lower case
  it is; for the letters of the patterns these are the ASCII upper and lower case, and
  for \<open>i\<close> also the dotted capital U+0130 and the dotless small U+0131.  The dot does
  not match a newline.
\<close>

datatype atom = Lit nat | OptAny | Spaces

definition lit_matches :: "nat \<Rightarrow> nat \<Rightarrow> bool" where
  "lit_matches p x \<longleftrightarrow> lower_cp x = p \<or> (p = 105 \<and> (x = 304 \<or> x = 305))"

fun rx_prefix :: "atom list \<Rightarrow> ustr \<Rightarrow> bool" where
  "rx_prefix [] s = True"
| "rx_prefix (Lit p # as) [] = False"
| "rx_prefix (Lit p # as) (x # xs) = (lit_matches p x \<and> rx_prefix as xs)"
| "rx_prefix (OptAny # as) [] = rx_prefix as []"
| "rx_prefix (OptAny # as) (x # xs) = ((x \<noteq> 10 \<and> rx_prefix as xs) \<or> rx_prefix as (x # xs))"
| "rx_prefix (Spaces # as) [] = rx_prefix as []"
| "rx_prefix (Spaces # as) (x # xs) =
     ((is_space x \<and> rx_prefix (Spaces # as) xs) \<or> rx_prefix as (x # xs))"

fun re_search :: "atom list \<Rightarrow> ustr \<Rightarrow> bool" where
  "re_search p [] = rx_prefix p []"
| "re_search p (x # xs) = (rx_prefix p (x # xs) \<or> re_search p xs)"

definition kw_date :: "atom list list" where
  "kw_date =
     [[Lit 45216, Lit 51676],
      [Lit 44144, Lit 47000, Lit 51068],
      [Lit 51068, Lit 51088],
      [Lit 49849, Lit 51064, Lit 51068, Lit 51088],
      [Lit 44144, Lit 47000, Spaces, Lit 49884, Lit 44036]]"

definition kw_desc :: "atom list list" where
  "kw_desc =
     [[Lit 45236, Lit 50857],
      [Lit 51201, Lit 50836],
      [Lit 44144, Lit 47000, Lit 45236, Lit 50857],
      [Lit 44032, Lit 47609, Lit 51216, Lit 47749],
      [Lit 48155, Lit 45716, OptAny, Lit 48516],
      [Lit 48372, Lit 45236, OptAny, Lit 45716, OptAny, Lit 48516]]"

definition kw_memo :: "atom list list" where
  "kw_memo =
     [[Lit 47700, Lit 47784],
      [Lit 48708, Lit 44256]]"

definition kw_dep :: "atom list list" where
  "kw_dep =
     [[Lit 51077, Lit 44552],
      [Lit 48155, Lit 51008, Lit 44552, Lit 50529],
      [Lit 99, Lit 114, Lit 101, Lit 100, Lit 105, Lit 116]]"

definition kw_wd :: "atom list list" where
  "kw_wd =
     [[Lit 52636, Lit 44552],
      [Lit 48372, Lit 45240, Lit 44552, Lit 50529],
      [Lit 100, Lit 101, Lit 98, Lit 105, Lit 116]]"

definition kw_amt :: "atom list list" where
  "kw_amt =
     [[Lit 44552, Lit 50529],
      [Lit 51060, Lit 52404, Lit 44552, Lit 50529],
      [Lit 44144, Lit 47000, Lit 44552, Lit 50529]]"

text \<open>\<open>str(x).replace(NBSP, " ").strip()\<close>, on text and on a cell.\<close>

definition norm_str :: "ustr \<Rightarrow> ustr" where
  "norm_str s = strip (map (\<lambda>c. if c = 160 then 32 else c) s)"

definition norm_cell :: "cell \<Rightarrow> ustr" where
  "norm_cell x = norm_str (str_cell x)"

definition has_kw :: "ustr \<Rightarrow> atom list list \<Rightarrow> bool" where
  "has_kw s pats = (let s2 = norm_str s in list_ex (\<lambda>p. re_search p s2) pats)"

text \<open>The inner loop of \<open>_guess_header_row\<close>: the hits of one row.\<close>

fun count_hits :: "ustr list \<Rightarrow> nat \<Rightarrow> nat" where
  "count_hits [] hits = hits"
| "count_hits (cell # row) hits =
     (let hits = (if has_kw cell kw_date then hits + 1 else hits);
          hits = (if has_kw cell kw_desc then hits + 1 else hits);
          hits = (if has_kw cell kw_amt then hits + 1 else hits);
          hits = (if has_kw cell kw_dep then hits + 1 else hits);
          hits = (if has_kw cell kw_wd then hits + 1 else hits)
      in count_hits row hits)"

definition row_hits :: "cell list \<Rightarrow> nat" where
  "row_hits r = count_hits (map norm_cell r) 0"

definition guess_header_row :: "frame \<Rightarrow> nat \<Rightarrow> nat option" where
  "guess_header_row df scan_rows = header_search scan_rows (\<lambda>r. 2 \<le> row_hits r) df"

subsection \<open>The score as the specification words it\<close>

text \<open>
  The number of distinct keyword categories, out of the five, that some cell of the row
  hits.
\<close>

definition distinct_categories :: "cell list \<Rightarrow> nat" where
  "distinct_categories r =
     length (filter (\<lambda>pats. list_ex (\<lambda>x. has_kw (norm_cell x) pats) r)
       [kw_date, kw_desc, kw_amt, kw_dep, kw_wd])"

subsection \<open>Sample rows\<close>

definition header_four :: "cell list" where
  "header_four = [S [44144, 47000, 51068], S [51201, 50836], S [51077, 44552], S [52636, 44552]]"

definition two_dates :: "cell list" where
  "two_dates = [S [44144, 47000, 51068], S [51068, 51088]]"

definition filler :: "cell list" where
  "filler = [S (ascii ''statement''), NaN]"

section \<open>Generic fallback and \<open>unify_columns\<close>\<close>

text \<open>
  \<open>df.dropna(how="all", axis=1)\<close> keeps the columns with at least one cell that is not
  missing; \<open>df.dropna(how="all", axis=0)\<close> then keeps the rows with such a cell.
\<close>

definition dropna_all_columns :: "frame \<Rightarrow> frame" where
  "dropna_all_columns df =
     (let keep = filter (\<lambda>j. list_ex (\<lambda>r. cell_at r j \<noteq> NaN) df) [0..<shape1 df]
      in map (\<lambda>r. map (cell_at r) keep) df)"

definition dropna_all_rows :: "frame \<Rightarrow> frame" where
  "dropna_all_rows df = filter (\<lambda>r. list_ex (\<lambda>x. x \<noteq> NaN) r) df"

text \<open>
  \<open>next((c for c in cols if _has_kw(c, pats)), None)\<close>, and the truth value of the
  result: \<open>None\<close> and the empty label are falsy.
\<close>

definition find_col :: "ustr list \<Rightarrow> atom list list \<Rightarrow> ustr option" where
  "find_col cols pats = List.find (\<lambda>c. has_kw c pats) cols"

definition found :: "ustr option \<Rightarrow> ustr option" where
  "found v = (case v of None \<Rightarrow> None | Some c \<Rightarrow> if c = [] then None else Some c)"

text \<open>
  \<open>[_parse_money(a) for a in df[c]]\<close>.  With a label that occurs once, \<open>df[c]\<close> is
  the column and the loop runs over its cells.  With a label that occurs several times,
  \<open>df[c]\<close> is a frame, and a loop over a frame runs over its column labels: the list
  then has one value per occurrence of the label, parsed from the label itself.
\<close>

definition selection :: "ustr list \<Rightarrow> frame \<Rightarrow> ustr \<Rightarrow> cell list" where
  "selection cols df c =
     (if count_list cols c = 1 then column cols df c
      else replicate (count_list cols c) (S c))"

definition money_column :: "ustr list \<Rightarrow> frame \<Rightarrow> ustr \<Rightarrow> error + pyfloat list" where
  "money_column cols df c = traverse (\<lambda>a. parse_money (Some a)) (selection cols df c)"

text \<open>
  The amount of every data row (the block that ends in the error "no amount column");
  \<open>zip\<close> stops at the end of the shorter list.
\<close>

definition amount_series :: "ustr list \<Rightarrow> frame \<Rightarrow> error + pyfloat list" where
  "amount_series cols df =
     (let col_dep = found (find_col cols kw_dep);
          col_wd = found (find_col cols kw_wd);
          col_amt = found (find_col cols kw_amt)
      in if col_dep \<noteq> None \<or> col_wd \<noteq> None then
           bind_err (case col_dep of Some c \<Rightarrow> money_column cols df c
                     | None \<Rightarrow> Inr (replicate (length df) (Fin 0))) (\<lambda>dep_v.
           bind_err (case col_wd of Some c \<Rightarrow> money_column cols df c
                     | None \<Rightarrow> Inr (replicate (length df) (Fin 0))) (\<lambda>wd_v.
             Inr (map2 (\<lambda>d w. fsub d w) dep_v wd_v)))
         else (case col_amt of
                 Some c \<Rightarrow> money_column cols df c
               | None \<Rightarrow> Inl NoAmountColumn))"

definition generic_row :: "'d option \<Rightarrow> cell \<Rightarrow> pyfloat \<Rightarrow> 'd urow" where
  "generic_row d desc a =
     \<lparr>u_date = d, u_type = None, u_description = desc, u_out_amount = None, u_in_amount = None,
      u_balance = None, u_branch = None, u_amount = a, u_tx_type = None\<rparr>"

text \<open>
  The frame \<open>out\<close> of date, description and amount, and its filter: a row is dropped
  when its date is NaT and the text of its description, stripped, is empty.
\<close>

definition blank_undated :: "'d urow \<Rightarrow> bool" where
  "blank_undated r \<longleftrightarrow> u_date r = None \<and> strip (str_cell (u_description r)) = []"

definition out_frame :: "'d option list \<Rightarrow> cell list \<Rightarrow> pyfloat list \<Rightarrow> 'd urow list" where
  "out_frame dates descs amounts =
     filter (\<lambda>r. \<not> blank_undated r)
       (map (\<lambda>(d, desc, a). generic_row d desc a) (zip dates (zip descs amounts)))"

text \<open>The rows that the filter removes.\<close>

definition dropped_rows :: "'d option list \<Rightarrow> cell list \<Rightarrow> pyfloat list \<Rightarrow> 'd urow list" where
  "dropped_rows dates descs amounts =
     filter blank_undated
       (map (\<lambda>(d, desc, a). generic_row d desc a) (zip dates (zip descs amounts)))"

text \<open>
  \<open>out['balance'] = values\<close>, the assignment of a list as a column.  pandas compares
  the length of the list with the length of the frame and raises \<open>ValueError\<close> when
  they differ, with one exception (\<open>DataFrame._ensure_valid_index\<close>): a frame without
  rows takes its index from a non-empty list, so it gets one row per value, with the
  other columns missing.
\<close>

definition missing_row :: "'d urow" where
  "missing_row = generic_row None NaN FNaN"

definition assign_balance :: "pyfloat list \<Rightarrow> 'd urow list \<Rightarrow> error + 'd urow list" where
  "assign_balance vals out =
     (if out = [] \<and> vals \<noteq> [] then Inr (map (\<lambda>b. missing_row\<lparr>u_balance := Some b\<rparr>) vals)
      else if length vals \<noteq> length out then Inl (LengthMismatch (length vals) (length out))
      else Inr (map2 (\<lambda>r b. r\<lparr>u_balance := Some b\<rparr>) out vals))"

definition lbl_balance :: ustr where
  "lbl_balance = [51092, 50529]"

definition lbl_balance_after :: ustr where
  "lbl_balance_after = [44144, 47000, 54980, 32, 51092, 50529]"

definition balance_labels :: "ustr list" where
  "balance_labels = [lbl_balance, lbl_balance_after, lbl_kb_balance]"

definition with_balance :: "ustr list \<Rightarrow> frame \<Rightarrow> 'd urow list \<Rightarrow> error + 'd urow list" where
  "with_balance cols df out =
     (if list_ex (\<lambda>c. c \<in> set cols) balance_labels then
        (case List.find (\<lambda>c. c \<in> set cols) balance_labels of
           Some c \<Rightarrow> bind_err (money_column cols df c) (\<lambda>vals. assign_balance vals out)
         | None \<Rightarrow> Inr out)
      else Inr (map (\<lambda>r. r\<lparr>u_balance := Some (Fin 0)\<rparr>) out))"

text \<open>
  The frame \<open>out\<close> before the filter is built from the parsed date column, the
  description column and the list of amounts.  \<open>to_datetime\<close> comes first and raises
  when the date label is duplicated; the frame constructor then raises when the list of
  amounts has not one value per data row, and when the description label is duplicated.
\<close>

definition generic_frame ::
  "(cell list \<Rightarrow> nat \<Rightarrow> 'd option) \<Rightarrow> ustr list \<Rightarrow> frame \<Rightarrow> ustr \<Rightarrow> ustr \<Rightarrow> pyfloat list \<Rightarrow>
   error + 'd urow list" where
  "generic_frame to_dt cols df cd cs amounts =
     bind_err (date_column to_dt cols df cd) (\<lambda>dates.
       if length amounts \<noteq> length df then Inl (ArrayLengthMismatch (length amounts) (length df))
       else if count_list cols cs \<noteq> 1 then Inl NotOneDimensional
       else Inr (out_frame dates (column cols df cs) amounts))"

text \<open>
  The generic fallback in three steps.  \<open>generic_header\<close> drops the empty columns and
  rows, guesses the header row and splits the table into the labels of that row and the
  rows below it.  \<open>generic_body\<close> is the rest of the function, after header selection.
\<close>

definition generic_header :: "frame \<Rightarrow> (ustr list \<times> frame) option" where
  "generic_header df0 =
     (let df = dropna_all_columns df0;
          df = dropna_all_rows df
      in case guess_header_row df 80 of
           None \<Rightarrow> None
         | Some idx \<Rightarrow>
             (let new_cols = map norm_cell (df ! idx);
                  df = drop (idx + 1) df
              in Some (new_cols, df)))"

definition generic_body ::
  "(cell list \<Rightarrow> nat \<Rightarrow> 'd option) \<Rightarrow> ustr list \<Rightarrow> frame \<Rightarrow> error + 'd urow list" where
  "generic_body to_dt cols df =
     (let col_date = found (find_col cols kw_date);
          col_desc = found (find_col cols kw_desc)
      in case (col_date, col_desc) of
           (Some cd, Some cs) \<Rightarrow>
             bind_err (amount_series cols df) (\<lambda>amounts.
             bind_err (generic_frame to_dt cols df cd cs amounts) (\<lambda>out.
               with_balance cols df out))
         | _ \<Rightarrow> Inl (MissingColumn cols))"

definition generic_unify ::
  "(cell list \<Rightarrow> nat \<Rightarrow> 'd option) \<Rightarrow> frame \<Rightarrow> error + 'd urow list" where
  "generic_unify to_dt df0 =
     (case generic_header df0 of
        None \<Rightarrow> Inl HeaderNotFound
      | Some (cols, df) \<Rightarrow> generic_body to_dt cols df)"

definition unify_columns ::
  "(cell list \<Rightarrow> nat \<Rightarrow> 'd option) \<Rightarrow> frame \<Rightarrow> error + 'd urow list" where
  "unify_columns to_dt df =
     bind_err (parse_woori_excel to_dt df) (\<lambda>woori.
       case woori of
         Some w \<Rightarrow> Inr w
       | None \<Rightarrow>
           bind_err (parse_kb_excel to_dt df) (\<lambda>kb.
             case kb of
               Some k \<Rightarrow> Inr k
             | None \<Rightarrow> generic_unify to_dt df))"

section \<open>The upload handler\<close>

text \<open>
  The part of \<open>upload_file\<close> between \<open>unify_columns\<close> and the database: a table
  without a \<open>tx_type\<close> column gets one from the sign of the amount, rows whose date is
  NaT are dropped, and the description becomes its stripped text.
\<close>

definition backfill_tx_type :: "'d urow \<Rightarrow> 'd urow" where
  "backfill_tx_type r =
     (case u_tx_type r of
        None \<Rightarrow> r\<lparr>u_tx_type := Some (tx_type_of (u_amount r))\<rparr>
      | Some t \<Rightarrow> r)"

definition upload_records :: "'d urow list \<Rightarrow> 'd urow list" where
  "upload_records df =
     map (\<lambda>r. r\<lparr>u_description := S (strip (str_cell (u_description r)))\<rparr>)
       (filter (\<lambda>r. u_date r \<noteq> None) (map backfill_tx_type df))"

subsection \<open>The two sides of an amount\<close>

text \<open>
  The parsed cell of a row in the credit or the debit column; zero when the table has
  no such column.
\<close>

definition side :: "ustr list \<Rightarrow> ustr option \<Rightarrow> cell list \<Rightarrow> pyfloat" where
  "side cols c r = (case c of Some l \<Rightarrow> money (cell_at r (col_pos cols l)) | None \<Rightarrow> Fin 0)"

text \<open>An optional label that, if present, occurs once among the labels.\<close>

definition once :: "ustr list \<Rightarrow> ustr option \<Rightarrow> bool" where
  "once cols v = (case v of None \<Rightarrow> True | Some c \<Rightarrow> count_list cols c = 1)"



subsection \<open>The invariant of a uniform record\<close>

definition tx_invariant :: "'d urow \<Rightarrow> bool" where
  "tx_invariant r \<longleftrightarrow>
     (u_tx_type r = Some (ascii ''IN'') \<or> u_tx_type r = Some (ascii ''OUT'')) \<and>
     (u_tx_type r = Some (ascii ''IN'') \<longleftrightarrow> fpos (u_amount r)) \<and>
     (fnegative (u_amount r) \<longrightarrow> u_tx_type r = Some (ascii ''OUT''))"

subsection \<open>A date reader for the sample tables\<close>

text \<open>
  In the sample evaluations \<open>to_datetime\<close> is instantiated with a reader of dates
  written \<open>YYYY-MM-DD\<close> that gives NaT for every other text.  pandas reads more
  formats; the sample cells are either of this form or contain no digit at all.
\<close>

definition two_digits :: "nat \<Rightarrow> nat \<Rightarrow> nat option" where
  "two_digits a b =
     (if 48 \<le> a \<and> a \<le> 57 \<and> 48 \<le> b \<and> b \<le> 57 then Some (10 * (a - 48) + (b - 48)) else None)"

definition iso_date :: "cell list \<Rightarrow> nat \<Rightarrow> (nat \<times> nat \<times> nat) option" where
  "iso_date col i =
     (case col ! i of
        NaN \<Rightarrow> None
      | S s \<Rightarrow>
          if length s = 10 \<and> s ! 4 = 45 \<and> s ! 7 = 45 then
            (case (two_digits (s ! 0) (s ! 1), two_digits (s ! 2) (s ! 3),
                   two_digits (s ! 5) (s ! 6), two_digits (s ! 8) (s ! 9)) of
               (Some c, Some y, Some m, Some d) \<Rightarrow>
                 if 1 \<le> m \<and> m \<le> 12 \<and> 1 \<le> d \<and> d \<le> 31 then Some (100 * c + y, m, d) else None
             | _ \<Rightarrow> None)
          else None)"

subsection \<open>Sample tables for the generic fallback\<close>

text \<open>
  Tables of four columns (date, description, inflow, balance), which no detector
  accepts: the header row, a deposit, and a row without date whose description is one
  blank.
\<close>

definition gen_header :: "cell list" where
  "gen_header = [S [45216, 51676], S [45236, 50857], S [51077, 44552], S lbl_balance]"

definition gen_deposit :: "cell list" where
  "gen_deposit = [S (ascii ''2024-02-05''), S (ascii ''salary''), S (ascii ''1000''),
     S (ascii ''1000'')]"

definition gen_blank :: "cell list" where
  "gen_blank = [NaN, S (ascii '' ''), S (ascii ''0''), S (ascii ''1000'')]"

definition gen_cols :: "ustr list" where
  "gen_cols = [[45216, 51676], [45236, 50857], [51077, 44552], lbl_balance]"

definition gen_table_kept :: frame where
  "gen_table_kept = [gen_header, gen_deposit]"

definition gen_table_partial :: frame where
  "gen_table_partial = [gen_header, gen_deposit, gen_blank]"

definition gen_table_dropped :: frame where
  "gen_table_dropped = [gen_header, gen_blank]"

definition gen_deposit_row :: "(nat \<times> nat \<times> nat) urow" where
  "gen_deposit_row = \<lparr>u_date = Some (2024, 2, 5), u_type = None,
     u_description = S (ascii ''salary''), u_out_amount = None, u_in_amount = None,
     u_balance = Some (Fin 1000), u_branch = None, u_amount = Fin 1000, u_tx_type = None\<rparr>"

definition gen_ghost_row :: "(nat \<times> nat \<times> nat) urow" where
  "gen_ghost_row = \<lparr>u_date = None, u_type = None, u_description = NaN, u_out_amount = None,
     u_in_amount = None, u_balance = Some (Fin 1000), u_branch = None, u_amount = FNaN,
     u_tx_type = None\<rparr>"

text \<open>
  A table with a single amount column, and one with a date and a description column
  only.
\<close>

definition amt_cols :: "ustr list" where
  "amt_cols = [[45216, 51676], [45236, 50857], [44552, 50529]]"

definition amt_row :: "cell list" where
  "amt_row = [S (ascii ''2024-02-05''), S (ascii ''salary''), S (ascii ''1000'')]"





definition amt_result_row :: "(nat \<times> nat \<times> nat) urow" where
  "amt_result_row = \<lparr>u_date = Some (2024, 2, 5), u_type = None,
     u_description = S (ascii ''salary''), u_out_amount = None, u_in_amount = None,
     u_balance = Some (Fin 0), u_branch = None, u_amount = Fin 1000, u_tx_type = None\<rparr>"







section \<open>Fingerprint\<close>

text \<open>
  Decimal digits of a natural number, and the same padded with zeros on the left to a
  width.
\<close>

function dec :: "nat \<Rightarrow> ustr" where
  "dec n = (if n < 10 then [48 + n] else dec (n div 10) @ [48 + n mod 10])"
  by pat_completeness auto
termination
  by (relation "measure id") auto

declare dec.simps [simp del]

definition zero_pad :: "nat \<Rightarrow> ustr \<Rightarrow> ustr" where
  "zero_pad w s = replicate (w - length s) 48 @ s"

text \<open>
  A \<open>datetime.date\<close> and its \<open>isoformat()\<close>: four digits for the year, two for the
  month and the day.
\<close>

record pydate =
  year :: nat
  month :: nat
  day :: nat

definition isoformat :: "pydate \<Rightarrow> ustr" where
  "isoformat d =
     zero_pad 4 (dec (year d)) @ ascii ''-'' @ zero_pad 2 (dec (month d)) @ ascii ''-'' @
     zero_pad 2 (dec (day d))"

text \<open>
  The format \<open>f"{x:.kf}"\<close> of a float: the exact value of the double, rounded to
  \<open>k\<close> decimals with ties to even, with a minus sign for negative values and the
  negative zero; \<open>inf\<close>, \<open>-inf\<close> and \<open>nan\<close> for the special values.
\<close>

definition fixed_digits :: "nat \<Rightarrow> rat \<Rightarrow> ustr" where
  "fixed_digits k a =
     (let n = nat (round_half_even (a * 10 ^ k))
      in dec (n div 10 ^ k) @
         (if k = 0 then [] else ascii ''.'' @ zero_pad k (dec (n mod 10 ^ k))))"

definition fmt_fixed :: "nat \<Rightarrow> pyfloat \<Rightarrow> ustr" where
  "fmt_fixed k x =
     (case x of
        Fin q \<Rightarrow> (if q < 0 then ascii ''-'' else []) @ fixed_digits k \<bar>q\<bar>
      | NegZero \<Rightarrow> ascii ''-'' @ fixed_digits k 0
      | PInf \<Rightarrow> ascii ''inf''
      | NInf \<Rightarrow> ascii ''-inf''
      | FNaN \<Rightarrow> ascii ''nan'')"

text \<open>
  The canonical texts of the fields, and the string \<open>raw\<close> that \<open>make_fingerprint\<close>
  hashes.  \<open>(v or "").strip().lower()\<close> strips first and lower-cases second;
  \<open>str.lower\<close> is the parameter \<open>low\<close>.
\<close>

definition canon_text :: "(ustr \<Rightarrow> ustr) \<Rightarrow> ustr option \<Rightarrow> ustr" where
  "canon_text low v = low (strip (py_or v []))"

definition canon_balance :: "pyfloat option \<Rightarrow> ustr" where
  "canon_balance balance = (case balance of None \<Rightarrow> [] | Some x \<Rightarrow> fmt_fixed 0 x)"

definition fingerprint_raw ::
  "(ustr \<Rightarrow> ustr) \<Rightarrow> pydate \<Rightarrow> pyfloat \<Rightarrow> ustr option \<Rightarrow> ustr option \<Rightarrow> pyfloat option \<Rightarrow>
   ustr" where
  "fingerprint_raw low tx_date amount descr branch balance =
     (let d = canon_text low descr;
          b = canon_text low branch;
          bal = canon_balance balance
      in isoformat tx_date @ ascii ''|'' @ fmt_fixed 2 amount @ ascii ''|'' @ d @ ascii ''|'' @
         b @ ascii ''|'' @ bal)"

text \<open>
  The digest \<open>hashlib.sha256(raw.encode("utf-8")).hexdigest()\<close> is a library call
  and enters as the parameter \<open>sha256_hex\<close>.
\<close>

definition make_fingerprint ::
  "(ustr \<Rightarrow> 'h) \<Rightarrow> (ustr \<Rightarrow> ustr) \<Rightarrow> pydate \<Rightarrow> pyfloat \<Rightarrow> ustr option \<Rightarrow> ustr option \<Rightarrow>
   pyfloat option \<Rightarrow> 'h" where
  "make_fingerprint sha256_hex low tx_date amount descr branch balance =
     sha256_hex (fingerprint_raw low tx_date amount descr branch balance)"

subsection \<open>Sample transactions\<close>

definition sample_day :: pydate where
  "sample_day = \<lparr>year = 2024, month = 2, day = 5\<rparr>"

section \<open>Properties of the rule engine\<close>

lemma py_or_chain:
  "py_or a (py_or b (py_or c (py_or d e))) = first_non_empty [a, b, c, d] e"
  by (auto simp: py_or_def first_non_empty_def split: option.splits)

lemma rule_result_amended: "rule_result r = result_of amended_category r"
  by (cases "is_fixed r")
     (auto simp: rule_result_def result_of_def amended_category_def py_or_chain Let_def)

lemma hit_spec_match:
  "safe_lower low (keyword r) \<noteq> [] \<Longrightarrow> hit low row r = spec_match low row r"
  by (auto simp: hit_def spec_match_def selected_fields_def Let_def ascii_def)

lemma spec_match_keyword: "safe_lower low (keyword r) = [] \<Longrightarrow> \<not> spec_match low row r"
  by (simp add: spec_match_def)

lemma ascii_lower_samples:
  "ascii_lower (ascii ''cu'') = ascii ''cu''" "ascii_lower (ascii ''any'') = ascii ''any''"
  "ascii_lower (ascii ''vendor'') = ascii ''vendor''" "ascii_lower starbucks = starbucks"
  by (simp_all add: ascii_lower_def lower_cp_def ascii_def starbucks_def)

text \<open>
  C1, as amended.  For every lower-casing function, \<open>apply_rules\<close> returns the result
  of the first rule, in list order, whose lower-cased keyword is non-empty and occurs in
  the lower-cased field(s) its target selects (an absent or empty target counts as
  \<open>any\<close>).  The category of that result is the first of flat category, level 3, level 2,
  level 1 that is neither null nor the empty string, else the default; the three levels
  are copied and the fixed flag is the rule's flag read as a boolean.  If no rule
  matches, the default result is returned.
\<close>

theorem apply_rules_first_match:
  "apply_rules low row rules = first_match low amended_category row rules"
proof (induction rules)
  case Nil
  show ?case by (simp add: first_match_def)
next
  case (Cons r rules)
  show ?case
  proof (cases "safe_lower low (keyword r) = []")
    case True
    with Cons spec_match_keyword [OF True, of row] show ?thesis
      by (simp add: first_match_def)
  next
    case False
    with Cons hit_spec_match [OF False, of row] show ?thesis
      by (simp add: first_match_def rule_result_amended)
  qed
qed

theorem apply_rules_first_match_witness:
  "apply_rules ascii_lower row_starbucks [rule_empty_l3, rule_cafe] =
     \<lparr>r_category = cafe, r_category_l1 = None, r_category_l2 = None, r_category_l3 = None,
      r_is_fixed = False\<rparr> \<and>
   apply_rules ascii_lower row_cu [rule_cafe] = default_result"
  unfolding apply_rules_first_match [of ascii_lower row_starbucks "[rule_empty_l3, rule_cafe]"]
    apply_rules_first_match [of ascii_lower row_cu "[rule_cafe]"]
  by (simp add: first_match_def spec_match_def selected_fields_def rule_target_def py_or_def
      safe_lower_def ascii_lower_def lower_cp_def ascii_def rule_cafe_def rule_empty_l3_def
      row_starbucks_def row_cu_def starbucks_def cafe_def result_of_def amended_category_def
      first_non_empty_def)

text \<open>
  A rule whose level 3 is the empty string and whose level 2 is set: whenever
  lower-casing leaves the texts \<open>cu\<close> and \<open>any\<close> as they are, as \<open>str.lower()\<close> does,
  the rule matches the record and the category is the level-2 text.
\<close>

lemma empty_level_skipped:
  assumes "low (ascii ''cu'') = ascii ''cu''" "low (ascii ''any'') = ascii ''any''"
  shows "r_category (apply_rules low row_cu [rule_empty_l3]) = ascii ''store''"
proof -
  have "hit low row_cu rule_empty_l3"
    using assms
    by (simp add: hit_def rule_target_def py_or_def safe_lower_def rule_empty_l3_def row_cu_def
        Let_def) (simp add: ascii_def)
  moreover have "safe_lower low (keyword rule_empty_l3) \<noteq> []"
    using assms(1) by (simp add: safe_lower_def rule_empty_l3_def ascii_def)
  ultimately show ?thesis
    by (simp add: rule_result_def py_or_def rule_empty_l3_def Let_def) (simp add: ascii_def)
qed

text \<open>
  C1 as the specification states it fails: a matching rule whose level 3 is the empty
  string (not null) and whose level 2 is set gets the level-2 text as category, where
  "deepest non-null level" would give the empty level-3 text.
\<close>

theorem apply_rules_non_null_counterexample:
  "category_l3 rule_empty_l3 = Some [] \<and> spec_category rule_empty_l3 = [] \<and>
   r_category (apply_rules ascii_lower row_cu [rule_empty_l3]) = ascii ''store''"
  using empty_level_skipped [OF ascii_lower_samples(1,2)]
  by (simp add: rule_empty_l3_def spec_category_def first_non_null_def)

section \<open>Properties of the loader\<close>

lemma attempt_run_chain: "attempt l (d content) errors = run_chain [(l, d)] content errors"
  by (simp add: attempt_def split: sum.splits)

lemma run_chain_append:
  "then_try (run_chain xs content errors) (run_chain ys content) = run_chain (xs @ ys) content errors"
  by (induction xs arbitrary: errors) (auto simp: then_try_def split: sum.splits)

lemma csv_loop_run_chain:
  "csv_loop D content encs errors =
     run_chain (map (\<lambda>enc. (csv_label enc, read_csv D enc)) encs) content errors"
  by (induction encs arbitrary: errors) (auto simp: then_try_def attempt_def split: sum.splits)

lemma run_chain_find:
  "run_chain ds content errors =
     (case List.find (\<lambda>ld. \<not> isl (snd ld content)) ds of
        Some ld \<Rightarrow> Inl (projr (snd ld content))
      | None \<Rightarrow> Inr (errors @ map (failure_line content) ds))"
  by (induction ds arbitrary: errors) (auto simp: failure_line_def split: sum.splits option.splits)

lemma blocks_run_chain:
  "then_try (then_try (then_try (then_try (then_try
      (if ext \<in> set xlsx_exts then attempt (ascii ''openpyxl'') (openpyxl D content) []
       else Inr [])
      (\<lambda>errors. if ext = ascii ''.xls'' then attempt (ascii ''xlrd'') (xlrd D content) errors
         else Inr errors))
      (\<lambda>errors. if ext = ascii ''.xlsb'' then attempt (ascii ''pyxlsb'') (pyxlsb D content) errors
         else Inr errors))
      (\<lambda>errors. if ext = ascii ''.csv'' then csv_loop D content csv_encodings errors
         else Inr errors))
      (\<lambda>errors. attempt (ascii ''xlsx2csv'') (xlsx2csv D content) errors))
      (\<lambda>errors. attempt (ascii ''csv-final'') (csv_final D content) errors)
   = run_chain (chain D ext) content []"
proof -
  have b1: "(if ext \<in> set xlsx_exts then attempt (ascii ''openpyxl'') (openpyxl D content) []
       else Inr []) =
     run_chain (if ext \<in> set xlsx_exts then [(ascii ''openpyxl'', openpyxl D)] else []) content []"
    by (simp add: attempt_run_chain)
  have b2: "(\<lambda>errors. if ext = ascii ''.xls'' then attempt (ascii ''xlrd'') (xlrd D content) errors
         else Inr errors) =
     run_chain (if ext = ascii ''.xls'' then [(ascii ''xlrd'', xlrd D)] else []) content"
    by (auto simp: attempt_run_chain fun_eq_iff)
  have b3: "(\<lambda>errors. if ext = ascii ''.xlsb'' then attempt (ascii ''pyxlsb'') (pyxlsb D content) errors
         else Inr errors) =
     run_chain (if ext = ascii ''.xlsb'' then [(ascii ''pyxlsb'', pyxlsb D)] else []) content"
    by (auto simp: attempt_run_chain fun_eq_iff)
  have b4: "(\<lambda>errors. if ext = ascii ''.csv'' then csv_loop D content csv_encodings errors
         else Inr errors) =
     run_chain (if ext = ascii ''.csv''
       then map (\<lambda>enc. (csv_label enc, read_csv D enc)) csv_encodings else []) content"
    by (auto simp: csv_loop_run_chain fun_eq_iff)
  have b5: "(\<lambda>errors. attempt (ascii ''xlsx2csv'') (xlsx2csv D content) errors) =
     run_chain [(ascii ''xlsx2csv'', xlsx2csv D)] content"
    by (auto simp: attempt_run_chain fun_eq_iff)
  have b6: "(\<lambda>errors. attempt (ascii ''csv-final'') (csv_final D content) errors) =
     run_chain [(ascii ''csv-final'', csv_final D)] content"
    by (auto simp: attempt_run_chain fun_eq_iff)
  show ?thesis
    unfolding b1 b2 b3 b4 b5 b6 run_chain_append chain_def by simp
qed

text \<open>
  C8.  For every lower-casing function, \<open>load_spreadsheet\<close> is the first-of
  combinator over the candidate chain of the file's extension: if some decoder of the chain succeeds, the table of the first such
  decoder is returned; only if every decoder of the chain fails does the call fail, and
  then with one error whose message is the fixed prefix followed by the lines
  \<open>label: message\<close> of all decoders of the chain, joined by \<open>" | "\<close>.
\<close>

theorem load_spreadsheet_first_of:
  "load_spreadsheet low D content filename =
     first_of (chain D (splitext_ext (low (py_or filename [])))) content"
proof -
  let ?ds = "chain D (splitext_ext (low (py_or filename [])))"
  show ?thesis
  proof (cases "List.find (\<lambda>ld. \<not> isl (snd ld content)) ?ds")
    case None
    then show ?thesis
      by (simp add: load_spreadsheet_def load_by_ext_def blocks_run_chain run_chain_find
          first_of_def Let_def)
  next
    case (Some ld)
    then have "\<not> isl (snd ld content)"
      by (auto simp: find_Some_iff)
    then have "Inr (projr (snd ld content)) = snd ld content"
      by (cases "snd ld content") auto
    with Some show ?thesis
      by (simp add: load_spreadsheet_def load_by_ext_def blocks_run_chain run_chain_find
          first_of_def Let_def)
  qed
qed

theorem load_spreadsheet_first_of_witness:
  "load_spreadsheet ascii_lower text_only (ascii ''a,b'') (Some (ascii ''Statement.CSV'')) =
     Inr [[ascii ''a,b'']] \<and>
   load_spreadsheet ascii_lower all_fail (ascii ''a,b'') (Some (ascii ''x.xls'')) =
     Inl (load_failed @ ascii ''xlrd: e2 | xlsx2csv: e5 | csv-final: e6'')"
  unfolding load_spreadsheet_first_of [of ascii_lower text_only "ascii ''a,b''"
      "Some (ascii ''Statement.CSV'')"]
    load_spreadsheet_first_of [of ascii_lower all_fail "ascii ''a,b''" "Some (ascii ''x.xls'')"]
  by (simp add: first_of_def chain_def splitext_ext_def ascii_lower_def lower_cp_def py_or_def
      ascii_def xlsx_exts_def csv_encodings_def csv_label_def text_only_def all_fail_def
      failure_line_def Let_def)

section \<open>Properties of the money parser\<close>

lemmas digit_defs = is_digit_def digit_of_def decimal_value_def decimal_zeros_def

lemma ilog2_samples: "ilog2 1000 = 9" "ilog2 1234500 = 20"
  by (simp_all add: ilog2_def pow2_def compute_floorlog)

lemma to_double_samples: "to_double 1000 = Fin 1000" "to_double 1234500 = Fin 1234500"
  by (simp_all add: to_double_def ilog2_samples pow2_def round_half_even_def Let_def)

lemma parse_number_samples:
  "parse_number (ascii ''1000'') = Some 1000"
  "parse_number (ascii ''1234500'') = Some 1234500"
  "parse_number [] = None"
  by (simp_all add: parse_number_def ascii_def digit_defs digits_value_def parse_exponent_def)

lemma strip_samples:
  "float_strip (ascii ''1000'') = ascii ''1000''"
  "float_strip (ascii ''1234500'') = ascii ''1234500''"
  "float_strip (ascii ''-'') = ascii ''-''"
  by (simp_all add: float_strip_def ascii_def float_space_def)

lemma py_float_1000: "py_float (ascii ''1000'') = Inr (Fin 1000)"
  unfolding py_float_def strip_samples Let_def
  by (simp add: ascii_def ascii_lower_def lower_cp_def to_double_samples
      parse_number_samples [unfolded ascii_def, simplified])

lemma py_float_1234500: "py_float (ascii ''1234500'') = Inr (Fin 1234500)"
  unfolding py_float_def strip_samples Let_def
  by (simp add: ascii_def ascii_lower_def lower_cp_def to_double_samples
      parse_number_samples [unfolded ascii_def, simplified])

lemma py_float_fullwidth: "py_float [65297, 65296, 65296, 65296] = Inr (Fin 1000)"
proof -
  have "parse_number [65297, 65296, 65296, 65296] = Some 1000"
    by (simp add: parse_number_def digit_defs digits_value_def)
  then show ?thesis
    by (simp add: py_float_def float_strip_def float_space_def is_space_def ascii_lower_def
        lower_cp_def ascii_def to_double_samples)
qed

lemma py_float_dash: "py_float (ascii ''-'') = Inl (CouldNotConvert (ascii ''-''))"
  unfolding py_float_def strip_samples Let_def
  by (simp add: ascii_def ascii_lower_def parse_number_samples)

lemma strip_money_samples:
  "strip_money won_suffixed = ascii ''1234500''"
  "strip_money won_prefixed = ascii ''1000''"
  "strip_money (ascii ''-'') = ascii ''-''"
  by (simp_all add: strip_money_def money_noise_def is_space_def won_suffixed_def
      won_prefixed_def ascii_def)

lemma ascii_nonempty: "ascii (c # cs) \<noteq> []"
  by (simp add: ascii_def)

text \<open>
  \<open>float\<close> accepts more than ASCII decimal numbers: the remainder \<open>inf\<close> is
  converted to infinity, and a number in full-width digits to its value.
\<close>

lemma parse_money_fullwidth: "parse_money (Some (S [65297, 65296, 65296, 65296])) = Inr (Fin 1000)"
  by (simp add: parse_money_def strip_money_def money_noise_def is_space_def py_float_fullwidth)

lemma parse_money_inf: "parse_money (Some (S (ascii ''inf''))) = Inr PInf"
proof -
  have "strip_money (ascii ''inf'') = ascii ''inf''"
    by (simp add: strip_money_def money_noise_def is_space_def ascii_def)
  moreover have "py_float (ascii ''inf'') = Inr PInf"
    by (simp add: py_float_def float_strip_def float_space_def ascii_lower_def lower_cp_def
        ascii_def)
  ultimately show ?thesis
    by (simp add: parse_money_def Let_def ascii_nonempty)
qed

lemma parse_money_won_prefixed: "parse_money (Some (S won_prefixed)) = Inr (Fin 1000)"
  by (simp add: parse_money_def Let_def strip_money_samples py_float_1000 ascii_nonempty)

text \<open>
  C3, as amended.  \<open>_parse_money\<close> always returns a float, never an error.  It removes
  the won sign, the won syllable, commas and whitespace, and converts what remains with
  \<open>float\<close>.  It returns \<open>0.0\<close> for \<open>None\<close>, for NaN, for an empty remainder and for
  every remainder that \<open>float\<close> rejects; every remainder that \<open>float\<close> accepts is
  returned as that float.  The four sample amounts of the specification parse as it
  says.
\<close>

theorem parse_money_total:
  "(\<exists>x. parse_money v = Inr x) \<and>
   parse_money None = Inr (Fin 0) \<and>
   parse_money (Some NaN) = Inr (Fin 0) \<and>
   (strip_money t = [] \<longrightarrow> parse_money (Some (S t)) = Inr (Fin 0)) \<and>
   (\<forall>e. py_float (strip_money t) = Inl e \<longrightarrow> parse_money (Some (S t)) = Inr (Fin 0)) \<and>
   (\<forall>x. strip_money t \<noteq> [] \<and> py_float (strip_money t) = Inr x \<longrightarrow>
        parse_money (Some (S t)) = Inr x) \<and>
   parse_money (Some (S won_suffixed)) = Inr (Fin 1234500) \<and>
   parse_money (Some (S (ascii ''-''))) = Inr (Fin 0) \<and>
   parse_money (Some (S [])) = Inr (Fin 0) \<and>
   parse_money (Some (S won_prefixed)) = Inr (Fin 1000)"
proof -
  have total: "\<exists>x. parse_money v = Inr x"
    by (simp add: parse_money_def Let_def split: option.splits cell.splits sum.splits)
  have fixed: "parse_money None = Inr (Fin 0)" "parse_money (Some NaN) = Inr (Fin 0)"
    by (simp_all add: parse_money_def)
  have empty: "strip_money t = [] \<longrightarrow> parse_money (Some (S t)) = Inr (Fin 0)"
    by (simp add: parse_money_def)
  have rejected: "\<forall>e. py_float (strip_money t) = Inl e \<longrightarrow> parse_money (Some (S t)) = Inr (Fin 0)"
    by (auto simp: parse_money_def Let_def)
  have accepted: "\<forall>x. strip_money t \<noteq> [] \<and> py_float (strip_money t) = Inr x \<longrightarrow>
        parse_money (Some (S t)) = Inr x"
    by (simp add: parse_money_def Let_def)
  have s1: "parse_money (Some (S won_suffixed)) = Inr (Fin 1234500)"
    by (simp add: parse_money_def Let_def strip_money_samples py_float_1234500 ascii_nonempty)
  have s2: "parse_money (Some (S (ascii ''-''))) = Inr (Fin 0)"
    by (simp add: parse_money_def Let_def strip_money_samples py_float_dash)
  have s3: "parse_money (Some (S [])) = Inr (Fin 0)"
    by (simp add: parse_money_def strip_money_def)
  have s4: "parse_money (Some (S won_prefixed)) = Inr (Fin 1000)"
    by (rule parse_money_won_prefixed)
  from total fixed empty rejected accepted s1 s2 s3 s4 show ?thesis
    by (intro conjI)
qed

theorem parse_money_total_witness:
  "strip_money (ascii '' , '') = [] \<and> parse_money (Some (S (ascii '' , ''))) = Inr (Fin 0) \<and>
   py_float (strip_money (ascii ''-'')) = Inl (CouldNotConvert (ascii ''-'')) \<and>
   parse_money (Some (S (ascii ''-''))) = Inr (Fin 0) \<and>
   strip_money won_prefixed \<noteq> [] \<and> py_float (strip_money won_prefixed) = Inr (Fin 1000) \<and>
   parse_money (Some (S won_prefixed)) = Inr (Fin 1000)"
proof -
  have e: "strip_money (ascii '' , '') = []"
    by (simp add: strip_money_def money_noise_def is_space_def ascii_def)
  have d: "py_float (strip_money (ascii ''-'')) = Inl (CouldNotConvert (ascii ''-''))"
    by (simp add: strip_money_samples py_float_dash)
  have n: "strip_money won_prefixed \<noteq> []" "py_float (strip_money won_prefixed) = Inr (Fin 1000)"
    by (simp_all add: strip_money_samples py_float_1000 ascii_nonempty)
  have a: "parse_money (Some (S (ascii '' , ''))) = Inr (Fin 0)"
    using parse_money_total [of None "ascii '' , ''"] e by simp
  have b: "parse_money (Some (S (ascii ''-''))) = Inr (Fin 0)"
    using parse_money_total [of None "ascii ''-''"] d by simp
  have c: "parse_money (Some (S won_prefixed)) = Inr (Fin 1000)"
    using parse_money_total [of None won_prefixed] n by simp
  from e a d b n c show ?thesis by (intro conjI)
qed

text \<open>
  C3 as the specification states it fails: the remainder \<open>inf\<close> is not a number, yet
  \<open>float\<close> accepts it and \<open>_parse_money\<close> returns infinity, not \<open>0.0\<close>.
\<close>

theorem parse_money_inf_counterexample:
  "strip_money (ascii ''inf'') = ascii ''inf'' \<and>
   parse_money (Some (S (ascii ''inf''))) = Inr PInf \<and> PInf \<noteq> Fin 0"
proof -
  have "strip_money (ascii ''inf'') = ascii ''inf''"
    by (simp add: strip_money_def money_noise_def is_space_def ascii_def)
  with parse_money_inf show ?thesis by simp
qed

section \<open>Properties of the detectors\<close>

lemma bind_err_Inr_iff: "bind_err m k = Inr y \<longleftrightarrow> (\<exists>x. m = Inr x \<and> k x = Inr y)"
  by (cases m) (auto simp: bind_err_def)

lemma traverse_length: "traverse f xs = Inr ys \<Longrightarrow> length ys = length xs"
  by (induction xs arbitrary: ys) (auto simp: bind_err_Inr_iff)

lemma numeric_column_length: "numeric_column columns rows c = Inr ys \<Longrightarrow> length ys = length rows"
  by (auto simp: numeric_column_def column_def split: if_splits dest: traverse_length)

lemma to_datetime_length: "length (to_datetime to_dt col) = length col"
  by (simp add: to_datetime_def)

lemma date_column_length: "date_column to_dt columns rows c = Inr ds \<Longrightarrow> length ds = length rows"
  by (auto simp: date_column_def column_def to_datetime_length split: if_splits)

lemma in_set_map2: "r \<in> set (map2 f xs ys) \<Longrightarrow> \<exists>x y. r = f x y"
  by (auto simp: set_zip)

lemma IN_not_OUT: "ascii ''IN'' \<noteq> ascii ''OUT''" "ascii ''OUT'' \<noteq> ascii ''IN''"
  by (simp_all add: ascii_def)

lemma fnegative_not_fpos: "fnegative x \<Longrightarrow> \<not> fpos x"
  by (cases x) (auto simp: fnegative_def fpos_def)

lemma tx_type_of_invariant:
  "u_tx_type r = Some (tx_type_of (u_amount r)) \<Longrightarrow> tx_invariant r"
  by (auto simp: tx_invariant_def tx_type_of_def IN_not_OUT dest: fnegative_not_fpos)

lemma woori_row_invariant: "tx_invariant (woori_row columns d x)"
  by (rule tx_type_of_invariant) (simp add: woori_row_def Let_def split: prod.splits)

lemma kb_row_invariant: "tx_invariant (kb_row columns d x)"
  by (rule tx_type_of_invariant) (simp add: kb_row_def Let_def split: prod.splits)

lemma parse_woori_excel_rows:
  assumes "parse_woori_excel to_dt df = Inr (Some out)"
  shows "\<exists>dates rows columns. out = map2 (woori_row columns) dates rows"
  using assms
  by (auto simp: parse_woori_excel_def Let_def bind_err_Inr_iff split: if_splits option.splits)

lemma parse_kb_excel_rows:
  assumes "parse_kb_excel to_dt df = Inr (Some out)"
  shows "\<exists>dates rows columns. out = map2 (kb_row columns) dates rows"
  using assms
  by (auto simp: parse_kb_excel_def Let_def bind_err_Inr_iff split: if_splits option.splits)

lemma parse_woori_excel_invariant:
  "parse_woori_excel to_dt df = Inr (Some out) \<Longrightarrow> r \<in> set out \<Longrightarrow> tx_invariant r"
  using parse_woori_excel_rows [of to_dt df out] in_set_map2 woori_row_invariant by metis

lemma parse_kb_excel_invariant:
  "parse_kb_excel to_dt df = Inr (Some out) \<Longrightarrow> r \<in> set out \<Longrightarrow> tx_invariant r"
  using parse_kb_excel_rows [of to_dt df out] in_set_map2 kb_row_invariant by metis

subsection \<open>Evaluation of the sample statements\<close>

lemmas label_defs = woori_needed_def kb_needed_def lbl_datetime_def lbl_jeokyo_def
  lbl_content_def lbl_out_won_def lbl_in_won_def lbl_balance_after_won_def lbl_branch_def
  lbl_sender_receiver_def lbl_kb_out_def lbl_kb_in_def lbl_kb_balance_def lbl_ipgeum_def
  lbl_sender_def lbl_receiver_def

lemma sample_signatures:
  "woori_signature woori_header" "\<not> woori_signature kb_header"
  "kb_signature kb_header" "\<not> kb_signature woori_header"
  by (simp_all add: woori_signature_def kb_signature_def woori_header_def kb_header_def
      row_text_def str_cell_def label_defs Let_def)

lemma sample_columns:
  "map (\<lambda>x. strip (str_cell x)) woori_header = woori_needed"
  "map (\<lambda>x. strip (str_cell x)) kb_header = kb_needed"
  by (simp_all add: woori_header_def kb_header_def str_cell_def strip_def is_space_def label_defs)

lemma sample_needed:
  "list_all (\<lambda>c. c \<in> set woori_needed) woori_needed"
  "list_all (\<lambda>c. c \<in> set kb_needed) kb_needed"
  by (simp_all add: list_all_iff)

lemma sample_counts:
  "count_list woori_needed lbl_datetime = 1" "count_list woori_needed lbl_out_won = 1"
  "count_list woori_needed lbl_in_won = 1" "count_list woori_needed lbl_balance_after_won = 1"
  "count_list kb_needed lbl_datetime = 1" "count_list kb_needed lbl_kb_out = 1"
  "count_list kb_needed lbl_kb_in = 1" "count_list kb_needed lbl_kb_balance = 1"
  by (simp_all add: label_defs)

lemma sample_positions:
  "col_pos woori_needed lbl_datetime = 0" "col_pos woori_needed lbl_jeokyo = 1"
  "col_pos woori_needed lbl_content = 2" "col_pos woori_needed lbl_out_won = 3"
  "col_pos woori_needed lbl_in_won = 4" "col_pos woori_needed lbl_balance_after_won = 5"
  "col_pos woori_needed lbl_branch = 6"
  "col_pos kb_needed lbl_datetime = 0" "col_pos kb_needed lbl_sender_receiver = 1"
  "col_pos kb_needed lbl_kb_out = 2" "col_pos kb_needed lbl_kb_in = 3"
  "col_pos kb_needed lbl_kb_balance = 4"
  by (simp_all add: col_pos_def label_defs)

lemma clean_number_samples:
  "clean_number (S (ascii ''0'')) = ascii ''0''"
  "clean_number (S (ascii ''-'')) = ascii ''0''"
  "clean_number (S (ascii ''1000'')) = ascii ''1000''"
  "clean_number (S won_prefixed) = 8361 # ascii '' 1000''"
  by (simp_all add: clean_number_def str_cell_def ascii_def won_prefixed_def Let_def)

lemma py_float_0: "py_float (ascii ''0'') = Inr (Fin 0)"
  by (simp add: py_float_def float_strip_def float_space_def ascii_def ascii_lower_def
      lower_cp_def parse_number_def digit_defs digits_value_def to_double_def Let_def)

lemma py_float_won: "py_float (8361 # ascii '' 1000'') = Inl (CouldNotConvert (8361 # ascii '' 1000''))"
  by (simp add: py_float_def float_strip_def float_space_def is_space_def ascii_def
      ascii_lower_def lower_cp_def parse_number_def digit_defs Let_def)

lemma fsub_samples:
  "fsub (Fin 1000) (Fin 0) = Fin 1000" "fsub (Fin 0) (Fin 1000) = Fin (- 1000)"
  "fsub (Fin 0) (Fin 0) = Fin 0"
  by (simp_all add: fsub_def fadd_def to_double_samples to_double_def ilog2_samples pow2_def
      round_half_even_def Let_def)

lemma tx_type_samples:
  "tx_type_of (Fin 1000) = ascii ''IN''" "tx_type_of (Fin (- 1000)) = ascii ''OUT''"
  "tx_type_of (Fin 0) = ascii ''OUT''" "tx_type_of FNaN = ascii ''OUT''"
  by (simp_all add: tx_type_of_def fpos_def)

lemma iso_date_samples:
  "iso_date [S (ascii ''2024-02-05''), S (ascii ''abc'')] 0 = Some (2024, 2, 5)"
  "iso_date [S (ascii ''2024-02-05''), S (ascii ''abc'')] (Suc 0) = None"
  "iso_date [S (ascii ''abc'')] 0 = None"
  by (simp_all add: iso_date_def two_digits_def ascii_def)

lemma woori_table_header: "header_search 30 woori_signature woori_table = Some 0"
  "header_search 30 woori_signature woori_bad_table = Some 0"
  by (simp_all add: header_search_def woori_table_def woori_bad_table_def sample_signatures)

lemma woori_table_numbers:
  "numeric_column woori_needed [woori_salary, woori_undated, woori_bad_date] lbl_out_won =
     Inr [Fin 0, Fin 0, Fin 1000]"
  "numeric_column woori_needed [woori_salary, woori_undated, woori_bad_date] lbl_in_won =
     Inr [Fin 1000, Fin 0, Fin 0]"
  "numeric_column woori_needed [woori_salary, woori_undated, woori_bad_date] lbl_balance_after_won =
     Inr [Fin 1000, Fin 1000, Fin 0]"
  "numeric_column woori_needed [woori_bad_amount] lbl_out_won =
     Inl (CouldNotConvert (8361 # ascii '' 1000''))"
  by (simp_all add: numeric_column_def sample_counts column_def sample_positions cell_at_def
      woori_salary_def woori_undated_def woori_bad_date_def woori_bad_amount_def
      clean_number_samples py_float_0 py_float_1000 py_float_won bind_err_def)

lemma woori_table_dates:
  "date_column iso_date woori_needed [woori_salary, woori_bad_date] lbl_datetime =
     Inr [Some (2024, 2, 5), None]"
  by (simp add: date_column_def sample_counts column_def sample_positions cell_at_def
      woori_salary_def woori_bad_date_def to_datetime_def iso_date_samples upt_rec)

lemma woori_table_result: "parse_woori_excel iso_date woori_table = Inr (Some woori_rows)"
proof -
  have shape: "\<not> shape1 woori_table < 5"
    by (simp add: shape1_def woori_table_def woori_header_def woori_needed_def)
  have data: "drop (Suc 0) woori_table = [woori_salary, woori_undated, woori_bad_date]"
    "woori_table ! 0 = woori_header"
    by (simp_all add: woori_table_def)
  have kept: "dropna_date woori_needed lbl_datetime
      [(woori_salary, Fin 0, Fin 1000, Fin 1000), (woori_undated, Fin 0, Fin 0, Fin 1000),
       (woori_bad_date, Fin 1000, Fin 0, Fin 0)] =
      [(woori_salary, Fin 0, Fin 1000, Fin 1000), (woori_bad_date, Fin 1000, Fin 0, Fin 0)]"
    by (simp add: dropna_date_def sample_positions cell_at_def woori_salary_def woori_undated_def
        woori_bad_date_def)
  have rows: "woori_row woori_needed (Some (2024, 2, 5)) (woori_salary, Fin 0, Fin 1000, Fin 1000) =
      \<lparr>u_date = Some (2024, 2, 5), u_type = Some (S (ascii ''in'')),
         u_description = S (ascii ''salary''), u_out_amount = Some (Fin 0),
         u_in_amount = Some (Fin 1000), u_balance = Some (Fin 1000),
         u_branch = Some (S (ascii ''hq'')), u_amount = Fin 1000,
         u_tx_type = Some (ascii ''IN'')\<rparr>"
    "woori_row woori_needed None (woori_bad_date, Fin 1000, Fin 0, Fin 0) =
      \<lparr>u_date = None, u_type = Some (S (ascii ''out'')),
         u_description = S (ascii ''cafe''), u_out_amount = Some (Fin 1000),
         u_in_amount = Some (Fin 0), u_balance = Some (Fin 0),
         u_branch = Some (S (ascii ''hq'')), u_amount = Fin (- 1000),
         u_tx_type = Some (ascii ''OUT'')\<rparr>"
    by (simp_all add: woori_row_def sample_positions cell_at_def woori_salary_def
        woori_bad_date_def fsub_samples tx_type_samples Let_def)
  show ?thesis
    unfolding parse_woori_excel_def woori_rows_def
    by (simp add: shape woori_table_header data sample_columns sample_needed woori_table_numbers
        bind_err_def kept woori_table_dates rows Let_def)
qed

lemma woori_bad_table_result:
  "parse_woori_excel to_dt woori_bad_table = Inl (CouldNotConvert (8361 # ascii '' 1000''))"
proof -
  have shape: "\<not> shape1 woori_bad_table < 5"
    by (simp add: shape1_def woori_bad_table_def woori_header_def woori_needed_def)
  have data: "drop (Suc 0) woori_bad_table = [woori_bad_amount]"
    "woori_bad_table ! 0 = woori_header"
    by (simp_all add: woori_bad_table_def)
  show ?thesis
    unfolding parse_woori_excel_def
    by (simp add: shape woori_table_header data sample_columns sample_needed woori_table_numbers
        bind_err_def Let_def)
qed

lemma kb_table_header: "header_search 30 kb_signature kb_table = Some 0"
  "header_search 30 kb_signature kb_bad_table = Some 0"
  by (simp_all add: header_search_def kb_table_def kb_bad_table_def sample_signatures)

lemma kb_table_numbers:
  "numeric_column kb_needed [kb_bad_date] lbl_kb_out = Inr [Fin 1000]"
  "numeric_column kb_needed [kb_bad_date] lbl_kb_in = Inr [Fin 0]"
  "numeric_column kb_needed [kb_bad_date] lbl_kb_balance = Inr [Fin 0]"
  "numeric_column kb_needed [kb_bad_amount] lbl_kb_out =
     Inl (CouldNotConvert (8361 # ascii '' 1000''))"
  by (simp_all add: numeric_column_def sample_counts column_def sample_positions cell_at_def
      kb_bad_date_def kb_bad_amount_def clean_number_samples py_float_0 py_float_1000
      py_float_won bind_err_def)

lemma kb_table_result: "parse_kb_excel iso_date kb_table = Inr (Some kb_rows)"
proof -
  have shape: "\<not> shape1 kb_table < 5"
    by (simp add: shape1_def kb_table_def kb_header_def kb_needed_def)
  have data: "drop (Suc 0) kb_table = [kb_bad_date]" "kb_table ! 0 = kb_header"
    by (simp_all add: kb_table_def)
  have kept: "dropna_date kb_needed lbl_datetime [(kb_bad_date, Fin 1000, Fin 0, Fin 0)] =
      [(kb_bad_date, Fin 1000, Fin 0, Fin 0)]"
    by (simp add: dropna_date_def sample_positions cell_at_def kb_bad_date_def)
  have dates: "date_column iso_date kb_needed [kb_bad_date] lbl_datetime = Inr [None]"
    by (simp add: date_column_def sample_counts column_def sample_positions cell_at_def
        kb_bad_date_def to_datetime_def iso_date_samples)
  have rows: "kb_row kb_needed None (kb_bad_date, Fin 1000, Fin 0, Fin 0) =
      \<lparr>u_date = None, u_type = None, u_description = S (ascii ''cafe''),
         u_out_amount = Some (Fin 1000), u_in_amount = Some (Fin 0), u_balance = Some (Fin 0),
         u_branch = None, u_amount = Fin (- 1000), u_tx_type = Some (ascii ''OUT'')\<rparr>"
    by (simp add: kb_row_def sample_positions cell_at_def kb_bad_date_def fsub_samples
        tx_type_samples Let_def)
  show ?thesis
    unfolding parse_kb_excel_def kb_rows_def
    by (simp add: shape kb_table_header data sample_columns sample_needed kb_table_numbers
        bind_err_def kept dates rows Let_def)
qed

lemma kb_bad_table_result:
  "parse_kb_excel to_dt kb_bad_table = Inl (CouldNotConvert (8361 # ascii '' 1000''))"
proof -
  have shape: "\<not> shape1 kb_bad_table < 5"
    by (simp add: shape1_def kb_bad_table_def kb_header_def kb_needed_def)
  have data: "drop (Suc 0) kb_bad_table = [kb_bad_amount]" "kb_bad_table ! 0 = kb_header"
    by (simp_all add: kb_bad_table_def)
  show ?thesis
    unfolding parse_kb_excel_def
    by (simp add: shape kb_table_header data sample_columns sample_needed kb_table_numbers
        bind_err_def Let_def)
qed

lemma sample_date_cells:
  "date_cells woori_signature woori_table = [S (ascii ''2024-02-05''), S (ascii ''abc'')]"
  "date_cells kb_signature kb_table = [S (ascii ''abc'')]"
proof -
  have data: "drop (Suc 0) woori_table = [woori_salary, woori_undated, woori_bad_date]"
    "woori_table ! 0 = woori_header" "drop (Suc 0) kb_table = [kb_bad_date]"
    "kb_table ! 0 = kb_header"
    by (simp_all add: woori_table_def kb_table_def)
  show "date_cells woori_signature woori_table = [S (ascii ''2024-02-05''), S (ascii ''abc'')]"
    unfolding date_cells_def woori_table_header
    by (simp add: data sample_columns column_def sample_positions cell_at_def
        woori_salary_def woori_undated_def woori_bad_date_def Let_def)
  show "date_cells kb_signature kb_table = [S (ascii ''abc'')]"
    unfolding date_cells_def kb_table_header
    by (simp add: data sample_columns column_def sample_positions cell_at_def
        kb_bad_date_def Let_def)
qed

subsection \<open>Which rows a detector keeps\<close>

lemma map_fst_filter_zip:
  "length ys = length xs \<Longrightarrow> map fst (filter (\<lambda>(r, n). P r) (zip xs ys)) = filter P xs"
  by (induction xs ys rule: list_induct2') auto

lemma column_filter:
  "column columns (filter (\<lambda>r. cell_at r (col_pos columns c) \<noteq> NaN) rows) c =
     filter (\<lambda>x. x \<noteq> NaN) (column columns rows c)"
  by (simp add: column_def filter_map comp_def)

lemma dropna_date_rows:
  assumes "length ns = length rows"
  shows "column columns (map fst (dropna_date columns c (zip rows ns))) c =
     filter (\<lambda>x. x \<noteq> NaN) (column columns rows c)"
  unfolding dropna_date_def map_fst_filter_zip [OF assms] column_filter ..

lemma map_u_date_woori:
  "length ds = length rows \<Longrightarrow> map u_date (map2 (woori_row columns) ds rows) = ds"
  by (induction ds rows rule: list_induct2) (auto simp: woori_row_def Let_def split: prod.splits)

lemma map_u_date_kb:
  "length ds = length rows \<Longrightarrow> map u_date (map2 (kb_row columns) ds rows) = ds"
  by (induction ds rows rule: list_induct2) (auto simp: kb_row_def Let_def split: prod.splits)

lemma parse_woori_excel_dates:
  assumes "parse_woori_excel to_dt df = Inr (Some out)"
  shows "map u_date out = to_datetime to_dt (date_cells woori_signature df)"
proof -
  from assms obtain h where h: "header_search 30 woori_signature df = Some h"
    by (auto simp: parse_woori_excel_def split: if_splits option.splits)
  define data where "data = drop (h + 1) df"
  define columns where "columns = map (\<lambda>x. strip (str_cell x)) (df ! h)"
  from assms h obtain outs ins bals dates where
    outs: "numeric_column columns data lbl_out_won = Inr outs" and
    ins: "numeric_column columns data lbl_in_won = Inr ins" and
    bals: "numeric_column columns data lbl_balance_after_won = Inr bals" and
    dates: "date_column to_dt columns
       (map fst (dropna_date columns lbl_datetime (zip data (zip outs (zip ins bals)))))
       lbl_datetime = Inr dates" and
    out: "out = map2 (woori_row columns) dates
       (dropna_date columns lbl_datetime (zip data (zip outs (zip ins bals))))"
    by (auto simp: parse_woori_excel_def Let_def bind_err_Inr_iff data_def columns_def
        split: if_splits)
  have len: "length (zip outs (zip ins bals)) = length data"
    using numeric_column_length [OF outs] numeric_column_length [OF ins]
      numeric_column_length [OF bals] by simp
  have "length dates = length (dropna_date columns lbl_datetime (zip data (zip outs (zip ins bals))))"
    using date_column_length [OF dates] by simp
  then have "map u_date out = dates"
    unfolding out by (rule map_u_date_woori)
  moreover have "dates = to_datetime to_dt (filter (\<lambda>x. x \<noteq> NaN) (column columns data lbl_datetime))"
    using dates dropna_date_rows [OF len, of columns lbl_datetime]
    by (auto simp: date_column_def split: if_splits)
  ultimately show ?thesis
    by (simp add: date_cells_def h data_def columns_def Let_def)
qed

lemma parse_kb_excel_dates:
  assumes "parse_kb_excel to_dt df = Inr (Some out)"
  shows "map u_date out = to_datetime to_dt (date_cells kb_signature df)"
proof -
  from assms obtain h where h: "header_search 30 kb_signature df = Some h"
    by (auto simp: parse_kb_excel_def split: if_splits option.splits)
  define data where "data = drop (h + 1) df"
  define columns where "columns = map (\<lambda>x. strip (str_cell x)) (df ! h)"
  from assms h obtain outs ins bals dates where
    outs: "numeric_column columns data lbl_kb_out = Inr outs" and
    ins: "numeric_column columns data lbl_kb_in = Inr ins" and
    bals: "numeric_column columns data lbl_kb_balance = Inr bals" and
    dates: "date_column to_dt columns
       (map fst (dropna_date columns lbl_datetime (zip data (zip outs (zip ins bals)))))
       lbl_datetime = Inr dates" and
    out: "out = map2 (kb_row columns) dates
       (dropna_date columns lbl_datetime (zip data (zip outs (zip ins bals))))"
    by (auto simp: parse_kb_excel_def Let_def bind_err_Inr_iff data_def columns_def
        split: if_splits)
  have len: "length (zip outs (zip ins bals)) = length data"
    using numeric_column_length [OF outs] numeric_column_length [OF ins]
      numeric_column_length [OF bals] by simp
  have "length dates = length (dropna_date columns lbl_datetime (zip data (zip outs (zip ins bals))))"
    using date_column_length [OF dates] by simp
  then have "map u_date out = dates"
    unfolding out by (rule map_u_date_kb)
  moreover have "dates = to_datetime to_dt (filter (\<lambda>x. x \<noteq> NaN) (column columns data lbl_datetime))"
    using dates dropna_date_rows [OF len, of columns lbl_datetime]
    by (auto simp: date_column_def split: if_splits)
  ultimately show ?thesis
    by (simp add: date_cells_def h data_def columns_def Let_def)
qed

lemma upload_records_dated: "r \<in> set (upload_records rows) \<Longrightarrow> u_date r \<noteq> None"
  by (auto simp: upload_records_def backfill_tx_type_def split: option.splits)

subsection \<open>The claims on the detectors\<close>

text \<open>
  C5 at a failing input.  A statement in either bank's layout whose outflow cell is
  written with the won sign makes the detector raise the \<open>ValueError\<close> of the float
  conversion: the cleaning removes commas and the won syllable only.  \<open>_parse_money\<close> of
  the generic fallback reads the same cell as 1000.
\<close>

theorem detectors_raise_on_won_sign:
  "parse_woori_excel iso_date woori_bad_table = Inl (CouldNotConvert (8361 # ascii '' 1000'')) \<and>
   parse_kb_excel iso_date kb_bad_table = Inl (CouldNotConvert (8361 # ascii '' 1000'')) \<and>
   parse_money (Some (S won_prefixed)) = Inr (Fin 1000)"
  by (simp add: woori_bad_table_result kb_bad_table_result parse_money_won_prefixed)

text \<open>
  C6, as amended.  In a table returned by a detector, the dates of the rows are the
  results of \<open>to_datetime\<close> on the date cells that are not missing, in order: a row
  whose date cell is missing has been dropped, and every other row is kept, with NaT as
  date when its cell does not parse.  The upload handler drops the rows with NaT
  afterwards, so every record it keeps has a date.
\<close>

theorem detector_dates:
  "(parse_woori_excel to_dt df = Inr (Some out) \<longrightarrow>
      map u_date out = to_datetime to_dt (date_cells woori_signature df)) \<and>
   (parse_kb_excel to_dt df = Inr (Some out) \<longrightarrow>
      map u_date out = to_datetime to_dt (date_cells kb_signature df)) \<and>
   (\<forall>r\<in>set (upload_records out). u_date r \<noteq> None)"
  using parse_woori_excel_dates [of to_dt df out] parse_kb_excel_dates [of to_dt df out]
    upload_records_dated [of _ out]
  by blast

theorem detector_dates_witness:
  "parse_woori_excel iso_date woori_table = Inr (Some woori_rows) \<and>
   map u_date woori_rows = to_datetime iso_date (date_cells woori_signature woori_table) \<and>
   parse_kb_excel iso_date kb_table = Inr (Some kb_rows) \<and>
   map u_date kb_rows = to_datetime iso_date (date_cells kb_signature kb_table) \<and>
   upload_records woori_rows \<noteq> [] \<and>
   list_all (\<lambda>r. u_date r \<noteq> None) (upload_records woori_rows)"
proof -
  have "upload_records woori_rows \<noteq> []"
    by (simp add: upload_records_def woori_rows_def backfill_tx_type_def)
  with detector_dates [of iso_date woori_table woori_rows]
    detector_dates [of iso_date kb_table kb_rows] woori_table_result kb_table_result
  show ?thesis unfolding list_all_iff by blast
qed

text \<open>
  C6 as the specification states it fails: the sample statements have a row whose date
  cell is the text \<open>abc\<close>; each detector returns that row, with NaT as its date.
\<close>

theorem detector_keeps_unparseable_date_counterexample:
  "date_cells woori_signature woori_table = [S (ascii ''2024-02-05''), S (ascii ''abc'')] \<and>
   parse_woori_excel iso_date woori_table = Inr (Some woori_rows) \<and>
   map u_date woori_rows = [Some (2024, 2, 5), None] \<and>
   date_cells kb_signature kb_table = [S (ascii ''abc'')] \<and>
   parse_kb_excel iso_date kb_table = Inr (Some kb_rows) \<and>
   map u_date kb_rows = [None]"
  by (simp add: sample_date_cells woori_table_result kb_table_result)
     (simp add: woori_rows_def kb_rows_def)

section \<open>Properties of the header guess\<close>

lemma first_index_Some_iff:
  "first_index P xs = Some i \<longleftrightarrow> i < length xs \<and> P (xs ! i) \<and> (\<forall>j<i. \<not> P (xs ! j))"
proof (induction xs arbitrary: i)
  case Nil
  show ?case by simp
next
  case (Cons x xs)
  show ?case
  proof (cases "P x")
    case True
    then show ?thesis by (cases i) auto
  next
    case False
    show ?thesis
    proof (cases i)
      case 0
      with False show ?thesis by simp
    next
      case (Suc k)
      have "(\<forall>j<Suc k. \<not> P ((x # xs) ! j)) \<longleftrightarrow> (\<forall>j<k. \<not> P (xs ! j))"
        using False by (auto simp: less_Suc_eq_0_disj)
      with False Suc Cons.IH [of k] show ?thesis by auto
    qed
  qed
qed

lemma first_index_None_iff: "first_index P xs = None \<longleftrightarrow> (\<forall>x\<in>set xs. \<not> P x)"
  by (induction xs) auto

lemma header_search_Some_iff:
  "header_search n P df = Some i \<longleftrightarrow>
     i < min n (length df) \<and> P (df ! i) \<and> (\<forall>j<i. \<not> P (df ! j))"
  by (auto simp: header_search_def first_index_Some_iff)

lemma header_search_None_iff:
  "header_search n P df = None \<longleftrightarrow> (\<forall>i<min n (length df). \<not> P (df ! i))"
proof -
  have "(\<forall>x\<in>set (take n df). \<not> P x) \<longleftrightarrow> (\<forall>i<length (take n df). \<not> P (take n df ! i))"
    by (simp add: all_set_conv_all_nth)
  then show ?thesis
    by (auto simp: header_search_def first_index_None_iff)
qed

lemma has_kw_samples:
  "has_kw [44144, 47000, 51068] kw_date" "\<not> has_kw [44144, 47000, 51068] kw_desc"
  "\<not> has_kw [44144, 47000, 51068] kw_amt" "\<not> has_kw [44144, 47000, 51068] kw_dep"
  "\<not> has_kw [44144, 47000, 51068] kw_wd"
  "has_kw [51068, 51088] kw_date" "\<not> has_kw [51068, 51088] kw_desc"
  "\<not> has_kw [51068, 51088] kw_amt" "\<not> has_kw [51068, 51088] kw_dep"
  "\<not> has_kw [51068, 51088] kw_wd"
  "\<not> has_kw [51201, 50836] kw_date" "has_kw [51201, 50836] kw_desc"
  "\<not> has_kw [51201, 50836] kw_amt" "\<not> has_kw [51201, 50836] kw_dep"
  "\<not> has_kw [51201, 50836] kw_wd"
  "\<not> has_kw [51077, 44552] kw_date" "\<not> has_kw [51077, 44552] kw_desc"
  "\<not> has_kw [51077, 44552] kw_amt" "has_kw [51077, 44552] kw_dep"
  "\<not> has_kw [51077, 44552] kw_wd"
  "\<not> has_kw [52636, 44552] kw_date" "\<not> has_kw [52636, 44552] kw_desc"
  "\<not> has_kw [52636, 44552] kw_amt" "\<not> has_kw [52636, 44552] kw_dep"
  "has_kw [52636, 44552] kw_wd"
  by (simp_all add: has_kw_def norm_str_def strip_def is_space_def kw_date_def kw_desc_def
      kw_amt_def kw_dep_def kw_wd_def lit_matches_def lower_cp_def)

lemma norm_cell_samples:
  "norm_cell (S [44144, 47000, 51068]) = [44144, 47000, 51068]"
  "norm_cell (S [51068, 51088]) = [51068, 51088]"
  "norm_cell (S [51201, 50836]) = [51201, 50836]"
  "norm_cell (S [51077, 44552]) = [51077, 44552]"
  "norm_cell (S [52636, 44552]) = [52636, 44552]"
  by (simp_all add: norm_cell_def norm_str_def str_cell_def strip_def is_space_def)

lemma row_hits_samples: "row_hits header_four = 4" "row_hits two_dates = 2"
  by (simp_all add: row_hits_def header_four_def two_dates_def norm_cell_samples has_kw_samples)

lemma row_hits_filler: "row_hits filler = 0"
  by (simp add: row_hits_def filler_def norm_cell_def norm_str_def str_cell_def strip_def
      is_space_def ascii_def has_kw_def kw_date_def kw_desc_def kw_amt_def kw_dep_def kw_wd_def
      lit_matches_def lower_cp_def)

lemma distinct_categories_two_dates: "distinct_categories two_dates = 1"
  by (simp add: distinct_categories_def two_dates_def norm_cell_samples has_kw_samples)

text \<open>
  C4, as amended.  \<open>_guess_header_row\<close> looks at the first \<open>min(80, len(df))\<close> rows
  and returns the first whose number of hits is at least 2, where every pair of a cell
  and a keyword category the cell matches counts as one hit; so two cells of the same
  category count twice.  It returns \<open>None\<close> exactly when no scanned row reaches 2 hits.
  The first such row wins whatever the later rows score, and the row of the four
  labels for date, description, inflow and outflow has 4 hits.
\<close>

theorem guess_header_row_first_hit:
  "(guess_header_row df 80 = Some i \<longleftrightarrow>
      i < min 80 (length df) \<and> 2 \<le> row_hits (df ! i) \<and> (\<forall>j<i. row_hits (df ! j) < 2)) \<and>
   (guess_header_row df 80 = None \<longleftrightarrow> (\<forall>i<min 80 (length df). row_hits (df ! i) < 2)) \<and>
   row_hits header_four = 4"
  by (auto simp: guess_header_row_def header_search_Some_iff header_search_None_iff
      row_hits_samples not_le)

theorem guess_header_row_first_hit_witness:
  "guess_header_row [filler, filler, filler, two_dates, header_four] 80 = Some 3 \<and>
   row_hits two_dates = 2 \<and> row_hits header_four = 4"
proof -
  let ?df = "[filler, filler, filler, two_dates, header_four]"
  have "\<forall>j<3. row_hits (?df ! j) < 2"
    by (simp add: row_hits_filler less_Suc_eq numeral_3_eq_3)
  moreover have "(3::nat) < min 80 (length ?df)" "2 \<le> row_hits (?df ! 3)"
    by (simp_all add: row_hits_samples)
  ultimately have "guess_header_row ?df 80 = Some 3"
    using guess_header_row_first_hit [of ?df 3] by blast
  then show ?thesis by (simp add: row_hits_samples)
qed

text \<open>
  C4 as the specification states it fails: a row of two date labels and nothing else
  hits one category only, yet it scores 2 and is selected as header.
\<close>

theorem guess_header_row_single_category_counterexample:
  "distinct_categories two_dates = 1 \<and> guess_header_row [two_dates, header_four] 80 = Some 0"
  by (simp add: distinct_categories_two_dates guess_header_row_def header_search_def
      row_hits_samples)

section \<open>Properties of the generic fallback\<close>

lemma parse_money_money: "parse_money (Some x) = Inr (money x)"
  by (auto simp: money_def parse_money_def Let_def split: cell.splits sum.splits)

lemma traverse_total: "(\<And>x. f x = Inr (g x)) \<Longrightarrow> traverse f xs = Inr (map g xs)"
  by (induction xs) (simp_all add: bind_err_def)

lemma money_column_total: "money_column cols df c = Inr (map money (selection cols df c))"
  by (simp add: money_column_def traverse_total [where g = money] parse_money_money)

lemma money_column_once:
  "count_list cols c = 1 \<Longrightarrow>
   money_column cols df c = Inr (map (\<lambda>r. money (cell_at r (col_pos cols c))) df)"
  by (simp add: money_column_total selection_def column_def comp_def)

lemma map2_same: "map2 f (map g xs) (map h xs) = map (\<lambda>x. f (g x) (h x)) xs"
  by (induction xs) simp_all

lemma replicate_map_const: "replicate (length xs) c = map (\<lambda>x. c) xs"
  by (induction xs) simp_all

lemma amount_series_sides:
  assumes "found (find_col cols kw_dep) \<noteq> None \<or> found (find_col cols kw_wd) \<noteq> None"
    "once cols (found (find_col cols kw_dep))" "once cols (found (find_col cols kw_wd))"
  shows "amount_series cols df =
     Inr (map (\<lambda>r. fsub (side cols (found (find_col cols kw_dep)) r)
                         (side cols (found (find_col cols kw_wd)) r)) df)"
  using assms
  by (cases "found (find_col cols kw_dep)"; cases "found (find_col cols kw_wd)")
     (simp_all add: amount_series_def bind_err_def money_column_once side_def map2_same
        replicate_map_const once_def)

lemma amount_series_single:
  assumes "found (find_col cols kw_dep) = None" "found (find_col cols kw_wd) = None"
    "found (find_col cols kw_amt) = Some c" "count_list cols c = 1"
  shows "amount_series cols df = Inr (map (\<lambda>r. money (cell_at r (col_pos cols c))) df)"
  using assms by (simp add: amount_series_def money_column_once)


lemma unify_columns_generic:
  assumes "parse_woori_excel to_dt df0 = Inr None" "parse_kb_excel to_dt df0 = Inr None"
    "generic_header df0 = Some (cols, df)"
  shows "unify_columns to_dt df0 = generic_body to_dt cols df"
  using assms by (simp add: unify_columns_def bind_err_def generic_unify_def)


lemma generic_body_frame:
  assumes "found (find_col cols kw_date) = Some cd" "found (find_col cols kw_desc) = Some cs"
    "amount_series cols df = Inr amounts" "generic_frame to_dt cols df cd cs amounts = Inr out"
  shows "generic_body to_dt cols df = with_balance cols df out"
  using assms by (simp add: generic_body_def bind_err_def)

lemma generic_frame_out:
  assumes "generic_frame to_dt cols df cd cs amounts = Inr out"
  shows "\<exists>dates. date_column to_dt cols df cd = Inr dates \<and> length dates = length df \<and>
     length amounts = length df \<and> count_list cols cs = 1 \<and>
     out = out_frame dates (column cols df cs) amounts"
  using assms date_column_length [of to_dt cols df cd]
  by (auto simp: generic_frame_def bind_err_Inr_iff split: if_splits)

lemma with_balance_present:
  assumes "List.find (\<lambda>c. c \<in> set cols) balance_labels = Some c"
  shows "with_balance cols df out = assign_balance (map money (selection cols df c)) out"
proof -
  have "List.find (\<lambda>c. c \<in> set cols) balance_labels \<noteq> None"
    using assms by simp
  then have "list_ex (\<lambda>c. c \<in> set cols) balance_labels"
    unfolding find_None_iff list_ex_iff by blast
  with assms show ?thesis
    by (simp add: with_balance_def money_column_total bind_err_def)
qed

lemma with_balance_absent:
  assumes "List.find (\<lambda>c. c \<in> set cols) balance_labels = None"
  shows "with_balance cols df out = Inr (map (\<lambda>r. r\<lparr>u_balance := Some (Fin 0)\<rparr>) out)"
proof -
  from assms have "\<not> list_ex (\<lambda>c. c \<in> set cols) balance_labels"
    by (auto simp: find_None_iff list_ex_iff)
  then show ?thesis
    by (simp add: with_balance_def)
qed

lemma out_frame_length:
  "length (out_frame dates descs amounts) + length (dropped_rows dates descs amounts) =
     length (zip dates (zip descs amounts))"
  unfolding out_frame_def dropped_rows_def
  using sum_length_filter_compl [of "\<lambda>r. \<not> blank_undated r"
      "map (\<lambda>(d, desc, a). generic_row d desc a) (zip dates (zip descs amounts))"]
  by simp




subsection \<open>Evaluation of the sample tables\<close>

lemmas kw_defs = kw_date_def kw_desc_def kw_amt_def kw_dep_def kw_wd_def

lemma gen_declined:
  "parse_woori_excel to_dt gen_table_kept = Inr None" "parse_kb_excel to_dt gen_table_kept = Inr None"
  "parse_woori_excel to_dt gen_table_partial = Inr None" "parse_kb_excel to_dt gen_table_partial = Inr None"
  "parse_woori_excel to_dt gen_table_dropped = Inr None" "parse_kb_excel to_dt gen_table_dropped = Inr None"
  by (simp_all add: parse_woori_excel_def parse_kb_excel_def shape1_def gen_table_kept_def
      gen_table_partial_def gen_table_dropped_def gen_header_def)

lemma gen_norm_header: "map norm_cell gen_header = gen_cols"
  by (simp add: gen_header_def gen_cols_def norm_cell_def norm_str_def str_cell_def strip_def
      is_space_def lbl_balance_def)

lemma gen_has_kw:
  "has_kw [45216, 51676] kw_date" "\<not> has_kw [45216, 51676] kw_desc"
  "\<not> has_kw [45216, 51676] kw_amt" "\<not> has_kw [45216, 51676] kw_dep"
  "\<not> has_kw [45216, 51676] kw_wd"
  "\<not> has_kw [45236, 50857] kw_date" "has_kw [45236, 50857] kw_desc"
  "\<not> has_kw [45236, 50857] kw_amt" "\<not> has_kw [45236, 50857] kw_dep"
  "\<not> has_kw [45236, 50857] kw_wd"
  "\<not> has_kw lbl_balance kw_date" "\<not> has_kw lbl_balance kw_desc"
  "\<not> has_kw lbl_balance kw_amt" "\<not> has_kw lbl_balance kw_dep"
  "\<not> has_kw lbl_balance kw_wd"
  by (simp_all add: has_kw_def norm_str_def strip_def is_space_def kw_defs lit_matches_def
      lower_cp_def lbl_balance_def)

lemma gen_row_hits: "row_hits gen_header = 3"
  by (simp add: row_hits_def gen_norm_header) (simp add: gen_cols_def gen_has_kw has_kw_samples)

lemma gen_dropna:
  "dropna_all_rows (dropna_all_columns gen_table_kept) = gen_table_kept"
  "dropna_all_rows (dropna_all_columns gen_table_partial) = gen_table_partial"
  "dropna_all_rows (dropna_all_columns gen_table_dropped) = gen_table_dropped"
  by (simp_all add: dropna_all_rows_def dropna_all_columns_def shape1_def gen_table_kept_def
      gen_table_partial_def gen_table_dropped_def gen_header_def gen_deposit_def gen_blank_def
      cell_at_def upt_rec Let_def)

lemma gen_header_found:
  "generic_header gen_table_kept = Some (gen_cols, [gen_deposit])"
  "generic_header gen_table_partial = Some (gen_cols, [gen_deposit, gen_blank])"
  "generic_header gen_table_dropped = Some (gen_cols, [gen_blank])"
proof -
  have g: "guess_header_row (gen_header # rows) 80 = Some 0" for rows
    by (simp add: guess_header_row_def header_search_def gen_row_hits)
  show "generic_header gen_table_kept = Some (gen_cols, [gen_deposit])"
    "generic_header gen_table_partial = Some (gen_cols, [gen_deposit, gen_blank])"
    "generic_header gen_table_dropped = Some (gen_cols, [gen_blank])"
    unfolding generic_header_def Let_def gen_dropna
    by (simp_all add: gen_table_kept_def gen_table_partial_def gen_table_dropped_def g
        gen_norm_header)
qed

lemma gen_found:
  "found (find_col gen_cols kw_date) = Some [45216, 51676]"
  "found (find_col gen_cols kw_desc) = Some [45236, 50857]"
  "found (find_col gen_cols kw_dep) = Some [51077, 44552]"
  "found (find_col gen_cols kw_wd) = None"
  "found (find_col gen_cols kw_amt) = None"
  by (simp_all add: found_def find_col_def gen_cols_def gen_has_kw has_kw_samples)

lemma gen_positions:
  "col_pos gen_cols [45216, 51676] = 0" "col_pos gen_cols [45236, 50857] = 1"
  "col_pos gen_cols [51077, 44552] = 2" "col_pos gen_cols lbl_balance = 3"
  by (simp_all add: col_pos_def gen_cols_def lbl_balance_def)

lemma gen_counts:
  "count_list gen_cols [45216, 51676] = 1" "count_list gen_cols [45236, 50857] = 1"
  "count_list gen_cols [51077, 44552] = 1" "count_list gen_cols lbl_balance = 1"
  by (simp_all add: gen_cols_def lbl_balance_def)

lemma gen_once:
  "once gen_cols (found (find_col gen_cols kw_dep))" "once gen_cols (found (find_col gen_cols kw_wd))"
  by (simp_all add: gen_found once_def gen_counts)

lemma gen_balance_label:
  "list_ex (\<lambda>c. c \<in> set gen_cols) balance_labels"
  "List.find (\<lambda>c. c \<in> set gen_cols) balance_labels = Some lbl_balance"
  by (simp_all add: balance_labels_def gen_cols_def)

lemma money_samples: "money (S (ascii ''1000'')) = Fin 1000" "money (S (ascii ''0'')) = Fin 0"
proof -
  have "strip_money (ascii ''1000'') = ascii ''1000''" "strip_money (ascii ''0'') = ascii ''0''"
    by (simp_all add: strip_money_def money_noise_def is_space_def ascii_def)
  then show "money (S (ascii ''1000'')) = Fin 1000" "money (S (ascii ''0'')) = Fin 0"
    by (simp_all add: money_def parse_money_def Let_def py_float_1000 py_float_0 ascii_nonempty)
qed

lemma gen_amounts:
  "amount_series gen_cols [gen_deposit] = Inr [Fin 1000]"
  "amount_series gen_cols [gen_deposit, gen_blank] = Inr [Fin 1000, Fin 0]"
  "amount_series gen_cols [gen_blank] = Inr [Fin 0]"
proof -
  have "found (find_col gen_cols kw_dep) \<noteq> None \<or> found (find_col gen_cols kw_wd) \<noteq> None"
    by (simp add: gen_found)
  note sides = amount_series_sides [OF this gen_once]
  show "amount_series gen_cols [gen_deposit] = Inr [Fin 1000]"
    "amount_series gen_cols [gen_deposit, gen_blank] = Inr [Fin 1000, Fin 0]"
    "amount_series gen_cols [gen_blank] = Inr [Fin 0]"
    unfolding sides
    by (simp_all add: gen_found side_def gen_positions cell_at_def gen_deposit_def gen_blank_def
        money_samples fsub_samples)
qed

lemma gen_dates:
  "date_column iso_date gen_cols [gen_deposit] [45216, 51676] = Inr [Some (2024, 2, 5)]"
  "date_column iso_date gen_cols [gen_deposit, gen_blank] [45216, 51676] = Inr [Some (2024, 2, 5), None]"
  "date_column iso_date gen_cols [gen_blank] [45216, 51676] = Inr [None]"
  by (simp_all add: date_column_def gen_positions gen_counts column_def cell_at_def
      gen_deposit_def gen_blank_def to_datetime_def iso_date_def two_digits_def ascii_def upt_rec)

lemma gen_out_frames:
  "out_frame [Some (2024, 2, 5)] (column gen_cols [gen_deposit] [45236, 50857]) [Fin 1000] =
     [generic_row (Some (2024, 2, 5)) (S (ascii ''salary'')) (Fin 1000)]"
  "out_frame [Some (2024, 2, 5), None] (column gen_cols [gen_deposit, gen_blank] [45236, 50857])
     [Fin 1000, Fin 0] = [generic_row (Some (2024, 2, 5)) (S (ascii ''salary'')) (Fin 1000)]"
  "out_frame [None :: (nat \<times> nat \<times> nat) option] (column gen_cols [gen_blank] [45236, 50857]) [Fin 0] = []"
  by (simp_all add: out_frame_def column_def gen_positions cell_at_def gen_deposit_def
      gen_blank_def blank_undated_def generic_row_def str_cell_def strip_def is_space_def
      ascii_def)

lemma gen_frames:
  "generic_frame iso_date gen_cols [gen_deposit] [45216, 51676] [45236, 50857] [Fin 1000] =
     Inr [generic_row (Some (2024, 2, 5)) (S (ascii ''salary'')) (Fin 1000)]"
  "generic_frame iso_date gen_cols [gen_deposit, gen_blank] [45216, 51676] [45236, 50857]
     [Fin 1000, Fin 0] = Inr [generic_row (Some (2024, 2, 5)) (S (ascii ''salary'')) (Fin 1000)]"
  "generic_frame iso_date gen_cols [gen_blank] [45216, 51676] [45236, 50857] [Fin 0] = Inr []"
  by (simp_all add: generic_frame_def gen_dates bind_err_def gen_counts gen_out_frames)

lemma gen_balances:
  "money_column gen_cols [gen_deposit] lbl_balance = Inr [Fin 1000]"
  "money_column gen_cols [gen_deposit, gen_blank] lbl_balance = Inr [Fin 1000, Fin 1000]"
  "money_column gen_cols [gen_blank] lbl_balance = Inr [Fin 1000]"
  by (simp_all add: money_column_once gen_counts gen_positions cell_at_def gen_deposit_def
      gen_blank_def money_samples)

lemma gen_body_results:
  "generic_body iso_date gen_cols [gen_deposit] = Inr [gen_deposit_row]"
  "generic_body iso_date gen_cols [gen_deposit, gen_blank] = Inl (LengthMismatch 2 1)"
  "generic_body iso_date gen_cols [gen_blank] = Inr [gen_ghost_row]"
  by (simp_all add: generic_body_def gen_found gen_amounts gen_frames bind_err_def
      with_balance_def gen_balance_label gen_balances assign_balance_def generic_row_def
      missing_row_def gen_deposit_row_def gen_ghost_row_def)

lemma gen_unify_results:
  "unify_columns iso_date gen_table_kept = Inr [gen_deposit_row]"
  "unify_columns iso_date gen_table_partial = Inl (LengthMismatch 2 1)"
  "unify_columns iso_date gen_table_dropped = Inr [gen_ghost_row]"
  by (simp_all add: unify_columns_generic [OF gen_declined(1,2) gen_header_found(1)]
      unify_columns_generic [OF gen_declined(3,4) gen_header_found(2)]
      unify_columns_generic [OF gen_declined(5,6) gen_header_found(3)] gen_body_results)

subsection \<open>The table with a duplicated inflow label\<close>










subsection \<open>The claims on the generic fallback\<close>

lemma amt_found:
  "found (find_col amt_cols kw_dep) = None" "found (find_col amt_cols kw_wd) = None"
  "found (find_col amt_cols kw_amt) = Some [44552, 50529]"
  "col_pos amt_cols [44552, 50529] = 2" "count_list amt_cols [44552, 50529] = 1"
proof -
  have "\<not> has_kw [44552, 50529] kw_dep" "\<not> has_kw [44552, 50529] kw_wd"
    "has_kw [44552, 50529] kw_amt"
    by (simp_all add: has_kw_def norm_str_def strip_def is_space_def kw_defs lit_matches_def
        lower_cp_def)
  then show "found (find_col amt_cols kw_dep) = None" "found (find_col amt_cols kw_wd) = None"
    "found (find_col amt_cols kw_amt) = Some [44552, 50529]"
    by (simp_all add: found_def find_col_def amt_cols_def gen_has_kw)
  show "col_pos amt_cols [44552, 50529] = 2" "count_list amt_cols [44552, 50529] = 1"
    by (simp_all add: col_pos_def amt_cols_def)
qed







text \<open>
  C10, as amended.  In the generic fallback, with date and description labels that
  occur once and one amount per data row, the frame \<open>out\<close> holds the data rows that
  the filter keeps.  When one of the three balance labels is present and the first
  present one occurs once among the labels, the balance list has one value per data
  row, kept or not, and is assigned to \<open>out\<close>: if some but not all rows were dropped
  the assignment raises the length-mismatch \<open>ValueError\<close>; if every row was dropped
  the empty frame takes one row per balance value, all other fields missing, and no
  exception is raised; if no row was dropped the balances are attached.  The default
  balance of zero is taken exactly when none of the three labels is present.
\<close>

theorem generic_balance:
  assumes "found (find_col cols kw_date) = Some cd" "found (find_col cols kw_desc) = Some cs"
    "count_list cols cs = 1"
    "amount_series cols df = Inr amounts" "length amounts = length df"
    "date_column to_dt cols df cd = Inr dates"
    "out = out_frame dates (column cols df cs) amounts"
  shows "length out + length (dropped_rows dates (column cols df cs) amounts) = length df \<and>
    (List.find (\<lambda>c. c \<in> set cols) balance_labels = Some c \<and> count_list cols c = 1 \<and>
     out \<noteq> [] \<and> length out < length df \<longrightarrow>
       generic_body to_dt cols df = Inl (LengthMismatch (length df) (length out))) \<and>
    (List.find (\<lambda>c. c \<in> set cols) balance_labels = Some c \<and> count_list cols c = 1 \<and>
     out = [] \<and> df \<noteq> [] \<longrightarrow>
       generic_body to_dt cols df =
         Inr (map (\<lambda>r. missing_row\<lparr>u_balance := Some (money (cell_at r (col_pos cols c)))\<rparr>) df)) \<and>
    (List.find (\<lambda>c. c \<in> set cols) balance_labels = Some c \<and> count_list cols c = 1 \<and>
     length out = length df \<longrightarrow>
       generic_body to_dt cols df =
         Inr (map2 (\<lambda>r x. r\<lparr>u_balance := Some (money (cell_at x (col_pos cols c)))\<rparr>) out df)) \<and>
    (List.find (\<lambda>c. c \<in> set cols) balance_labels = None \<longrightarrow>
       generic_body to_dt cols df = Inr (map (\<lambda>r. r\<lparr>u_balance := Some (Fin 0)\<rparr>) out))"
proof -
  have frame: "generic_frame to_dt cols df cd cs amounts = Inr out"
    using assms(3,5,6,7) by (simp add: generic_frame_def bind_err_def)
  have body: "generic_body to_dt cols df = with_balance cols df out"
    by (rule generic_body_frame [OF assms(1,2,4) frame])
  have present: "with_balance cols df out =
      assign_balance (map (\<lambda>r. money (cell_at r (col_pos cols c))) df) out"
    if "List.find (\<lambda>c. c \<in> set cols) balance_labels = Some c" "count_list cols c = 1"
    using that by (simp add: with_balance_present selection_def column_def comp_def)
  have "length (zip dates (zip (column cols df cs) amounts)) = length df"
    using date_column_length [OF assms(6)] assms(5)
    by (simp add: column_def)
  then have len: "length out + length (dropped_rows dates (column cols df cs) amounts) = length df"
    using out_frame_length [of dates "column cols df cs" amounts] assms(7) by simp
  have mismatch: "generic_body to_dt cols df = Inl (LengthMismatch (length df) (length out))"
    if "List.find (\<lambda>c. c \<in> set cols) balance_labels = Some c" "count_list cols c = 1"
      "out \<noteq> []" "length out < length df"
    using that present [OF that(1,2)] by (simp add: body assign_balance_def)
  have ghost: "generic_body to_dt cols df =
      Inr (map (\<lambda>r. missing_row\<lparr>u_balance := Some (money (cell_at r (col_pos cols c)))\<rparr>) df)"
    if "List.find (\<lambda>c. c \<in> set cols) balance_labels = Some c" "count_list cols c = 1"
      "out = []" "df \<noteq> []"
    using that present [OF that(1,2)] by (simp add: body assign_balance_def comp_def)
  have same: "generic_body to_dt cols df =
      Inr (map2 (\<lambda>r x. r\<lparr>u_balance := Some (money (cell_at x (col_pos cols c)))\<rparr>) out df)"
    if "List.find (\<lambda>c. c \<in> set cols) balance_labels = Some c" "count_list cols c = 1"
      "length out = length df"
  proof -
    from that(3) have e: "out = [] \<longleftrightarrow> df = []"
      by auto
    have "zip out (map (\<lambda>r. money (cell_at r (col_pos cols c))) df) =
        map (\<lambda>(r, x). (r, money (cell_at x (col_pos cols c)))) (zip out df)"
      by (simp add: zip_map2 map_prod_def)
    then have "map2 (\<lambda>r b. r\<lparr>u_balance := Some b\<rparr>) out
          (map (\<lambda>r. money (cell_at r (col_pos cols c))) df) =
        map2 (\<lambda>r x. r\<lparr>u_balance := Some (money (cell_at x (col_pos cols c)))\<rparr>) out df"
      by (simp add: case_prod_unfold)
    with that e present [OF that(1,2)] show ?thesis
      by (simp add: body assign_balance_def)
  qed
  have zero: "generic_body to_dt cols df = Inr (map (\<lambda>r. r\<lparr>u_balance := Some (Fin 0)\<rparr>) out)"
    if "List.find (\<lambda>c. c \<in> set cols) balance_labels = None"
    using that by (simp add: body with_balance_absent)
  from len mismatch ghost same zero show ?thesis by blast
qed

lemma amt_sample:
  "found (find_col amt_cols kw_date) = Some [45216, 51676]"
  "found (find_col amt_cols kw_desc) = Some [45236, 50857]"
  "amount_series amt_cols [amt_row] = Inr [Fin 1000]"
  "date_column iso_date amt_cols [amt_row] [45216, 51676] = Inr [Some (2024, 2, 5)]"
  "out_frame [Some (2024, 2, 5)] (column amt_cols [amt_row] [45236, 50857]) [Fin 1000] =
     [generic_row (Some (2024, 2, 5)) (S (ascii ''salary'')) (Fin 1000)]"
  "count_list amt_cols [45236, 50857] = 1"
  "List.find (\<lambda>c. c \<in> set amt_cols) balance_labels = None"
proof -
  show "found (find_col amt_cols kw_date) = Some [45216, 51676]"
    "found (find_col amt_cols kw_desc) = Some [45236, 50857]"
    by (simp_all add: found_def find_col_def amt_cols_def gen_has_kw)
  show "amount_series amt_cols [amt_row] = Inr [Fin 1000]"
    by (simp add: amount_series_single [OF amt_found(1-3) amt_found(5)] amt_found cell_at_def
        amt_row_def money_samples)
  have p: "col_pos amt_cols [45216, 51676] = 0" "col_pos amt_cols [45236, 50857] = 1"
    "count_list amt_cols [45216, 51676] = 1"
    by (simp_all add: col_pos_def amt_cols_def)
  show "count_list amt_cols [45236, 50857] = 1"
    by (simp add: amt_cols_def)
  show "date_column iso_date amt_cols [amt_row] [45216, 51676] = Inr [Some (2024, 2, 5)]"
    by (simp add: date_column_def p column_def cell_at_def amt_row_def to_datetime_def
        iso_date_def two_digits_def ascii_def)
  show "out_frame [Some (2024, 2, 5)] (column amt_cols [amt_row] [45236, 50857]) [Fin 1000] =
     [generic_row (Some (2024, 2, 5)) (S (ascii ''salary'')) (Fin 1000)]"
    by (simp add: out_frame_def column_def p cell_at_def amt_row_def blank_undated_def
        generic_row_def)
  show "List.find (\<lambda>c. c \<in> set amt_cols) balance_labels = None"
    by (simp add: balance_labels_def amt_cols_def lbl_balance_def lbl_balance_after_def
        lbl_kb_balance_def)
qed

theorem generic_balance_witness:
  "count_list gen_cols [45236, 50857] = 1 \<and>
   List.find (\<lambda>c. c \<in> set gen_cols) balance_labels = Some lbl_balance \<and>
   count_list gen_cols lbl_balance = 1 \<and>
   generic_body iso_date gen_cols [gen_deposit, gen_blank] = Inl (LengthMismatch 2 1) \<and>
   generic_body iso_date gen_cols [gen_blank] = Inr [gen_ghost_row] \<and>
   generic_body iso_date gen_cols [gen_deposit] = Inr [gen_deposit_row] \<and>
   count_list amt_cols [45236, 50857] = 1 \<and>
   List.find (\<lambda>c. c \<in> set amt_cols) balance_labels = None \<and>
   generic_body iso_date amt_cols [amt_row] = Inr [amt_result_row]"
proof -
  have a: "generic_body iso_date gen_cols [gen_deposit, gen_blank] = Inl (LengthMismatch 2 1)"
    using generic_balance [OF gen_found(1,2) gen_counts(2) gen_amounts(2) _ gen_dates(2)
        gen_out_frames(2) [symmetric], of lbl_balance] gen_balance_label gen_counts
    by simp
  have b: "generic_body iso_date gen_cols [gen_blank] = Inr [gen_ghost_row]"
    using generic_balance [OF gen_found(1,2) gen_counts(2) gen_amounts(3) _ gen_dates(3)
        gen_out_frames(3) [symmetric], of lbl_balance] gen_balance_label gen_counts
    by (simp add: gen_positions cell_at_def gen_blank_def money_samples missing_row_def
        generic_row_def gen_ghost_row_def)
  have c: "generic_body iso_date gen_cols [gen_deposit] = Inr [gen_deposit_row]"
    using generic_balance [OF gen_found(1,2) gen_counts(2) gen_amounts(1) _ gen_dates(1)
        gen_out_frames(1) [symmetric], of lbl_balance] gen_balance_label gen_counts
    by (simp add: gen_positions cell_at_def gen_deposit_def money_samples generic_row_def
        gen_deposit_row_def)
  have d: "generic_body iso_date amt_cols [amt_row] = Inr [amt_result_row]"
    using generic_balance [OF amt_sample(1,2) amt_sample(6) amt_sample(3) _ amt_sample(4)
        amt_sample(5) [symmetric]] amt_sample(7)
    by (simp add: generic_row_def amt_result_row_def)
  from a b c d gen_counts gen_balance_label(2) amt_sample(6,7)
  show ?thesis by simp
qed

text \<open>
  C10 as stated fails when every data row is dropped.  The sample table has the balance
  label and a single data row, which the filter removes; the balance assignment then
  does not raise: \<open>unify_columns\<close> returns one row without date, description and
  amount that carries the balance.
\<close>

theorem balance_all_dropped_counterexample:
  "generic_header gen_table_dropped = Some (gen_cols, [gen_blank]) \<and>
   lbl_balance \<in> set gen_cols \<and>
   length (dropped_rows [None :: (nat \<times> nat \<times> nat) option]
     (column gen_cols [gen_blank] [45236, 50857]) [Fin 0]) = 1 \<and>
   unify_columns iso_date gen_table_dropped = Inr [gen_ghost_row]"
proof -
  have "length (dropped_rows [None :: (nat \<times> nat \<times> nat) option]
     (column gen_cols [gen_blank] [45236, 50857]) [Fin 0]) = 1"
    by (simp add: dropped_rows_def column_def gen_positions cell_at_def gen_blank_def
        blank_undated_def generic_row_def str_cell_def strip_def is_space_def ascii_def)
  then show ?thesis
    by (simp add: gen_header_found gen_unify_results) (simp add: gen_cols_def)
qed

section \<open>The invariant of the transaction type\<close>

lemma assign_balance_unmarked:
  assumes "assign_balance vals out = Inr rows" "\<forall>r\<in>set out. u_tx_type r = None" "r \<in> set rows"
  shows "u_tx_type r = None"
proof (cases "out = [] \<and> vals \<noteq> []")
  case True
  with assms show ?thesis
    by (auto simp: assign_balance_def missing_row_def generic_row_def)
next
  case False
  with assms(1) have "rows = map2 (\<lambda>r b. r\<lparr>u_balance := Some b\<rparr>) out vals"
    by (auto simp: assign_balance_def split: if_splits)
  with assms(2,3) show ?thesis
    by (auto simp: set_zip)
qed

lemma out_frame_unmarked: "r \<in> set (out_frame dates descs amounts) \<Longrightarrow> u_tx_type r = None"
  by (auto simp: out_frame_def generic_row_def)

lemma with_balance_unmarked:
  assumes "with_balance cols df out = Inr rows" "\<forall>r\<in>set out. u_tx_type r = None" "r \<in> set rows"
  shows "u_tx_type r = None"
proof (cases "List.find (\<lambda>c. c \<in> set cols) balance_labels")
  case None
  with assms show ?thesis
    by (auto simp: with_balance_absent)
next
  case (Some c)
  with assms assign_balance_unmarked show ?thesis
    by (simp add: with_balance_present) blast
qed

lemma generic_body_unmarked:
  assumes "generic_body to_dt cols df = Inr rows" "r \<in> set rows"
  shows "u_tx_type r = None"
proof -
  from assms(1) obtain cd cs amounts out where
    "generic_frame to_dt cols df cd cs amounts = Inr out" "with_balance cols df out = Inr rows"
    by (auto simp: generic_body_def Let_def bind_err_Inr_iff split: option.splits)
  with generic_frame_out [of to_dt cols df cd cs amounts out] obtain dates descs where
    "with_balance cols df (out_frame dates descs amounts) = Inr rows"
    by auto
  with with_balance_unmarked [of cols df "out_frame dates descs amounts" rows r]
    out_frame_unmarked assms(2)
  show ?thesis by blast
qed

lemma unify_columns_rows:
  assumes "unify_columns to_dt df = Inr rows" "r \<in> set rows"
  shows "u_tx_type r = None \<or> tx_invariant r"
proof -
  from assms(1) consider
      (woori) "parse_woori_excel to_dt df = Inr (Some rows)"
    | (kb) "parse_kb_excel to_dt df = Inr (Some rows)"
    | (generic) "generic_unify to_dt df = Inr rows"
    by (auto simp: unify_columns_def bind_err_Inr_iff split: option.splits)
  then show ?thesis
  proof cases
    case woori
    with assms(2) parse_woori_excel_invariant show ?thesis by blast
  next
    case kb
    with assms(2) parse_kb_excel_invariant show ?thesis by blast
  next
    case generic
    then obtain cols data where "generic_body to_dt cols data = Inr rows"
      by (auto simp: generic_unify_def split: option.splits)
    with assms(2) generic_body_unmarked show ?thesis by blast
  qed
qed

lemma backfill_invariant:
  "u_tx_type r = None \<or> tx_invariant r \<Longrightarrow> tx_invariant (backfill_tx_type r)"
  by (cases "u_tx_type r")
     (auto simp: backfill_tx_type_def intro: tx_type_of_invariant)

lemma tx_invariant_description:
  "tx_invariant (r\<lparr>u_description := d\<rparr>) = tx_invariant r"
  by (simp add: tx_invariant_def)

lemma upload_records_invariant:
  assumes "\<forall>r\<in>set rows. u_tx_type r = None \<or> tx_invariant r" "r \<in> set (upload_records rows)"
  shows "tx_invariant r"
proof -
  from assms(2) obtain x where x: "x \<in> set rows"
    "r = (backfill_tx_type x)\<lparr>u_description := S (strip (str_cell (u_description (backfill_tx_type x))))\<rparr>"
    by (auto simp: upload_records_def)
  from x(1) assms(1) have "tx_invariant (backfill_tx_type x)"
    by (intro backfill_invariant) blast
  with x(2) show ?thesis
    by (simp add: tx_invariant_description)
qed

text \<open>
  C2.  Every row of a table that the first or the second bank's detector returns has
  transaction type \<open>IN\<close> or \<open>OUT\<close>, \<open>IN\<close> exactly when its amount is greater than
  zero, and \<open>OUT\<close> whenever the amount is less than zero.  The same holds for every
  record that the upload handler makes of a table returned by \<open>unify_columns\<close>,
  whichever path produced it: the generic fallback gives no transaction type and the
  handler fills it in from the sign of the amount.
\<close>

theorem tx_type_invariant:
  "(parse_woori_excel to_dt df = Inr (Some out) \<longrightarrow> (\<forall>r\<in>set out. tx_invariant r)) \<and>
   (parse_kb_excel to_dt df = Inr (Some out) \<longrightarrow> (\<forall>r\<in>set out. tx_invariant r)) \<and>
   (unify_columns to_dt df = Inr rows \<longrightarrow> (\<forall>r\<in>set (upload_records rows). tx_invariant r))"
  using parse_woori_excel_invariant [of to_dt df out] parse_kb_excel_invariant [of to_dt df out]
    unify_columns_rows [of to_dt df rows] upload_records_invariant [of rows]
  by blast

theorem tx_type_invariant_witness:
  "parse_woori_excel iso_date woori_table = Inr (Some woori_rows) \<and>
   map u_tx_type woori_rows = [Some (ascii ''IN''), Some (ascii ''OUT'')] \<and>
   list_all tx_invariant woori_rows \<and>
   parse_kb_excel iso_date kb_table = Inr (Some kb_rows) \<and>
   list_all tx_invariant kb_rows \<and>
   unify_columns iso_date gen_table_kept = Inr [gen_deposit_row] \<and>
   map u_tx_type (upload_records [gen_deposit_row]) = [Some (ascii ''IN'')] \<and>
   list_all tx_invariant (upload_records [gen_deposit_row])"
proof -
  have w: "list_all tx_invariant woori_rows"
    using tx_type_invariant [of iso_date woori_table woori_rows] woori_table_result
    by (simp add: list_all_iff)
  have k: "list_all tx_invariant kb_rows"
    using tx_type_invariant [of iso_date kb_table kb_rows] kb_table_result
    by (simp add: list_all_iff)
  have g: "list_all tx_invariant (upload_records [gen_deposit_row])"
    using tx_type_invariant [of iso_date gen_table_kept _ "[gen_deposit_row]"]
      gen_unify_results(1) by (simp add: list_all_iff)
  have t: "map u_tx_type woori_rows = [Some (ascii ''IN''), Some (ascii ''OUT'')]"
    "map u_tx_type (upload_records [gen_deposit_row]) = [Some (ascii ''IN'')]"
    by (simp_all add: woori_rows_def upload_records_def gen_deposit_row_def
        backfill_tx_type_def tx_type_samples)
  from w k g t woori_table_result kb_table_result gen_unify_results(1)
  show ?thesis by simp
qed

section \<open>Properties of the fingerprint\<close>

lemma dec_small: "n < 10 \<Longrightarrow> dec n = [48 + n]"
  by (simp add: dec.simps)

lemma dec_large: "\<not> n < 10 \<Longrightarrow> dec n = dec (n div 10) @ [48 + n mod 10]"
  by (subst dec.simps) simp

lemma dec_samples: "dec 0 = ascii ''0''" "dec 2 = ascii ''2''" "dec 5 = ascii ''5''"
  "dec 2024 = ascii ''2024''" "dec 1000 = ascii ''1000''" "dec 1001 = ascii ''1001''"
  by (simp_all add: dec_small dec_large ascii_def)

lemma isoformat_sample: "isoformat sample_day = ascii ''2024-02-05''"
  by (simp add: isoformat_def sample_day_def dec_samples zero_pad_def) (simp add: ascii_def)

lemma floor_samples: "\<lfloor>2001 / 2 :: rat\<rfloor> = 1000" "\<lfloor>2003 / 2 :: rat\<rfloor> = 1001"
  by (simp_all add: floor_eq_iff)

lemma fmt_fixed_samples:
  "fmt_fixed 2 (Fin 1000) = ascii ''1000.00''"
  "fmt_fixed 0 (Fin 1000) = ascii ''1000''"
  "fmt_fixed 0 (Fin (2001 / 2)) = ascii ''1000''"
  "fmt_fixed 0 (Fin (2003 / 2)) = ascii ''1002''"
  "fmt_fixed 2 (Fin (- 9 / 2)) = ascii ''-4.50''"
  by (simp_all add: fmt_fixed_def fixed_digits_def round_half_even_def floor_samples
      dec_small dec_large zero_pad_def ascii_def Let_def)

lemma canon_text_samples:
  "canon_text low (Some (ascii '' cafe '')) = low (ascii ''cafe'')"
  "canon_text low (Some (ascii ''cafe'')) = low (ascii ''cafe'')"
  "canon_text low None = low []" "canon_text low (Some []) = low []"
  by (simp_all add: canon_text_def py_or_def strip_def is_space_def ascii_def)

lemma canon_text_ascii:
  "canon_text ascii_lower (Some (ascii '' Cafe '')) = ascii ''cafe''"
  "canon_text ascii_lower (Some (ascii ''Cafe'')) = ascii ''cafe''"
  "canon_text ascii_lower (Some (ascii ''cafe'')) = ascii ''cafe''"
  "canon_text ascii_lower None = []"
  by (simp_all add: canon_text_def py_or_def strip_def is_space_def ascii_lower_def
      lower_cp_def ascii_def)

text \<open>
  C9, as amended.  \<open>make_fingerprint\<close> is a function of its five arguments: the digest
  of the string made of the date's ISO text, the amount to two decimals, the
  description and the branch trimmed and lower-cased (absent as empty) and the balance
  as a rounded integer (absent as empty), joined by bars.  Changing one field leaves
  that string unchanged exactly when the canonical text of the field is unchanged; two
  tuples that differ in one field but not in its canonical text have the same
  fingerprint.  This holds for every lower-casing function and every digest function.
\<close>

theorem fingerprint_fields:
  "make_fingerprint H low d a desc b bal = H (fingerprint_raw low d a desc b bal) \<and>
   (fingerprint_raw low d a desc b bal = fingerprint_raw low d' a desc b bal \<longleftrightarrow>
      isoformat d = isoformat d') \<and>
   (fingerprint_raw low d a desc b bal = fingerprint_raw low d a' desc b bal \<longleftrightarrow>
      fmt_fixed 2 a = fmt_fixed 2 a') \<and>
   (fingerprint_raw low d a desc b bal = fingerprint_raw low d a desc' b bal \<longleftrightarrow>
      canon_text low desc = canon_text low desc') \<and>
   (fingerprint_raw low d a desc b bal = fingerprint_raw low d a desc b' bal \<longleftrightarrow>
      canon_text low b = canon_text low b') \<and>
   (fingerprint_raw low d a desc b bal = fingerprint_raw low d a desc b bal' \<longleftrightarrow>
      canon_balance bal = canon_balance bal') \<and>
   (canon_text low desc = canon_text low desc' \<longrightarrow>
      make_fingerprint H low d a desc b bal = make_fingerprint H low d a desc' b bal)"
  by (simp add: make_fingerprint_def fingerprint_raw_def Let_def)

theorem fingerprint_fields_witness:
  "(\<forall>low. canon_text low (Some (ascii '' cafe '')) = canon_text low (Some (ascii ''cafe''))) \<and>
   (\<forall>(H :: ustr \<Rightarrow> ustr) low.
      make_fingerprint H low sample_day (Fin 1000) (Some (ascii '' cafe '')) None (Some (Fin 1000)) =
      make_fingerprint H low sample_day (Fin 1000) (Some (ascii ''cafe'')) None (Some (Fin 1000))) \<and>
   canon_text ascii_lower (Some (ascii '' Cafe '')) = canon_text ascii_lower (Some (ascii ''cafe'')) \<and>
   (\<forall>H :: ustr \<Rightarrow> ustr.
      make_fingerprint H ascii_lower sample_day (Fin 1000) (Some (ascii '' Cafe '')) None
        (Some (Fin 1000)) =
      make_fingerprint H ascii_lower sample_day (Fin 1000) (Some (ascii ''cafe'')) None
        (Some (Fin 1000))) \<and>
   fingerprint_raw ascii_lower sample_day (Fin 1000) (Some (ascii '' Cafe '')) None
     (Some (Fin 1000)) = ascii ''2024-02-05|1000.00|cafe||1000''"
proof -
  have c: "canon_text low (Some (ascii '' cafe '')) = canon_text low (Some (ascii ''cafe''))"
    for low
    by (simp add: canon_text_samples)
  have e: "canon_text ascii_lower (Some (ascii '' Cafe '')) =
      canon_text ascii_lower (Some (ascii ''cafe''))"
    by (simp add: canon_text_ascii)
  have f: "make_fingerprint H low sample_day (Fin 1000) (Some (ascii '' cafe '')) None
        (Some (Fin 1000)) =
      make_fingerprint H low sample_day (Fin 1000) (Some (ascii ''cafe'')) None (Some (Fin 1000))"
    for H :: "ustr \<Rightarrow> ustr" and low
    using fingerprint_fields [where H = H and low = low and d = sample_day and a = "Fin 1000"
        and desc = "Some (ascii '' cafe '')" and b = None and bal = "Some (Fin 1000)"
        and desc' = "Some (ascii ''cafe'')"] c [of low]
    by blast
  have g: "make_fingerprint H ascii_lower sample_day (Fin 1000) (Some (ascii '' Cafe '')) None
        (Some (Fin 1000)) =
      make_fingerprint H ascii_lower sample_day (Fin 1000) (Some (ascii ''cafe'')) None
        (Some (Fin 1000))"
    for H :: "ustr \<Rightarrow> ustr"
    using fingerprint_fields [where H = H and low = ascii_lower and d = sample_day
        and a = "Fin 1000" and desc = "Some (ascii '' Cafe '')" and b = None
        and bal = "Some (Fin 1000)" and desc' = "Some (ascii ''cafe'')"] e
    by blast
  have r: "fingerprint_raw ascii_lower sample_day (Fin 1000) (Some (ascii '' Cafe '')) None
     (Some (Fin 1000)) = ascii ''2024-02-05|1000.00|cafe||1000''"
    by (simp add: fingerprint_raw_def canon_text_ascii canon_balance_def isoformat_sample
        fmt_fixed_samples Let_def) (simp add: ascii_def)
  from c e f g r show ?thesis
    by blast
qed

text \<open>
  C9 as stated fails: a change of one field need not change the digest.  Two
  transactions that differ only in the blanks around the description, or only in the
  fraction of the balance, have the same fingerprint under every digest function and
  every lower-casing function; so have two that differ only in the case of an ASCII
  description, under every digest function.
\<close>

theorem fingerprint_collision_counterexample:
  "Some (ascii '' cafe '') \<noteq> Some (ascii ''cafe'') \<and>
   (\<forall>(H :: ustr \<Rightarrow> ustr) low.
      make_fingerprint H low sample_day (Fin 1000) (Some (ascii '' cafe '')) None (Some (Fin 1000)) =
      make_fingerprint H low sample_day (Fin 1000) (Some (ascii ''cafe'')) None (Some (Fin 1000))) \<and>
   Fin 1000 \<noteq> Fin (2001 / 2) \<and>
   (\<forall>(H :: ustr \<Rightarrow> ustr) low.
      make_fingerprint H low sample_day (Fin 1000) (Some (ascii ''cafe'')) None (Some (Fin 1000)) =
      make_fingerprint H low sample_day (Fin 1000) (Some (ascii ''cafe'')) None
        (Some (Fin (2001 / 2)))) \<and>
   Some (ascii ''Cafe'') \<noteq> Some (ascii ''cafe'') \<and>
   (\<forall>H :: ustr \<Rightarrow> ustr.
      make_fingerprint H ascii_lower sample_day (Fin 1000) (Some (ascii ''Cafe'')) None
        (Some (Fin 1000)) =
      make_fingerprint H ascii_lower sample_day (Fin 1000) (Some (ascii ''cafe'')) None
        (Some (Fin 1000)))"
proof -
  have "canon_text ascii_lower (Some (ascii ''Cafe'')) = canon_text ascii_lower (Some (ascii ''cafe''))"
    by (simp add: canon_text_ascii)
  moreover have "canon_balance (Some (Fin 1000)) = canon_balance (Some (Fin (2001 / 2)))"
    by (simp add: canon_balance_def fmt_fixed_samples)
  moreover have "Some (ascii '' cafe '') \<noteq> Some (ascii ''cafe'')"
    "Some (ascii ''Cafe'') \<noteq> Some (ascii ''cafe'')" "Fin 1000 \<noteq> Fin (2001 / 2 :: rat)"
    by (simp_all add: ascii_def)
  ultimately show ?thesis
    by (simp add: make_fingerprint_def fingerprint_raw_def canon_text_samples Let_def)
qed

end
